theory Spec2Isabelle
  imports Main "HOL-Library.Sublist" "HOL-Library.Word"
begin

section \<open>The popup script of the extension\<close>

text \<open>
  The repository is one script, \<^verbatim>\<open>src/extension/popup.js\<close>: a click handler that reads the
  text field \<^verbatim>\<open>notes\<close>, posts its value to a local server and writes what comes back into
  the element \<^verbatim>\<open>results\<close>. The handler is embedded as a function from the document and the
  server's answer to the document after the click, together with the ordered list of the
  effects it had (the read of the value, writes of \<^verbatim>\<open>innerHTML\<close>, the request, the console
  output).

  The answer of \<^verbatim>\<open>fetch\<close> and of \<^verbatim>\<open>response.json()\<close> is an input of the model, and an
  answer may be that the promise never settles: the script sets no timeout, and the run
  then stays suspended at its \<^verbatim>\<open>await\<close>. The document is a store of independent elements
  keyed by id, and an element's \<^verbatim>\<open>innerHTML\<close> is the string last assigned to it.
\<close>

subsection \<open>Strings\<close>

text \<open>
  A JavaScript string is a list of 16-bit code units. The literals of the script are ASCII:
  \<open>units\<close> gives the code units of one. Ids of elements, the URL, the method and the
  header, which are names fixed by the script, are kept as plain strings.
\<close>

type_synonym jstring = "16 word list"

definition code_unit :: "char \<Rightarrow> 16 word" where
  "code_unit c = of_nat (of_char c)"

definition units :: "string \<Rightarrow> jstring" where
  "units s = map code_unit s"

subsection \<open>JavaScript values that come out of a JSON body\<close>

text \<open>
  \<^verbatim>\<open>response.json()\<close> gives null, a boolean, a number, a string, an array or an object.
  The handler only ever converts a number to text or compares one with \<^verbatim>\<open>0\<close>, so a number
  is held as the text that \<^verbatim>\<open>Number::toString\<close> gives for it (\<^verbatim>\<open>0\<close> and \<^verbatim>\<open>-0\<close> are
  both \<^verbatim>\<open>0\<close>). An object is the list of its own properties, each name once. The value
  \<^verbatim>\<open>undefined\<close>, which a property read can give, is \<open>None\<close> of \<open>json option\<close>.
\<close>

datatype json =
    JNull
  | JBool bool
  | JNumber jstring
  | JString jstring
  | JArray "json list"
  | JObject "(jstring \<times> json) list"

datatype exn = Error jstring | TypeError | SyntaxError

text \<open>
  \<^verbatim>\<open>v.items\<close>, \<^verbatim>\<open>v.action\<close>, \<^verbatim>\<open>v.assignee\<close>, \<^verbatim>\<open>v.deadline\<close>: reading a property whose
  name no prototype defines. On null it throws; on an object it is the own property or
  \<^verbatim>\<open>undefined\<close>; on every other value it is \<^verbatim>\<open>undefined\<close>.
\<close>

fun get_member :: "json \<Rightarrow> jstring \<Rightarrow> exn + json option" where
  "get_member JNull k = Inl TypeError"
| "get_member (JObject kvs) k = Inr (map_of kvs k)"
| "get_member v k = Inr None"

text \<open>
  \<^verbatim>\<open>items.length === 0\<close>. Reading \<^verbatim>\<open>length\<close> of \<^verbatim>\<open>undefined\<close> or null throws. A string
  and an array have a length; an object has one only as an own property; a boolean and a
  number have none, and \<^verbatim>\<open>undefined === 0\<close> is false.
\<close>

fun length_is_zero :: "json option \<Rightarrow> exn + bool" where
  "length_is_zero None = Inl TypeError"
| "length_is_zero (Some JNull) = Inl TypeError"
| "length_is_zero (Some (JString s)) = Inr (s = [])"
| "length_is_zero (Some (JArray xs)) = Inr (xs = [])"
| "length_is_zero (Some (JObject kvs)) =
     Inr (map_of kvs (units ''length'') = Some (JNumber (units ''0'')))"
| "length_is_zero (Some v) = Inr False"

text \<open>
  The conversion to a string that a template literal applies to \<^verbatim>\<open>${...}\<close>. An array is
  joined with commas, null elements giving the empty string. A plain object gives
  \<^verbatim>\<open>[object Object]\<close>, unless it has an own property \<^verbatim>\<open>toString\<close>: that one is a JSON value,
  not a function, and the conversion throws.
\<close>

fun ToString :: "json \<Rightarrow> exn + jstring"
  and join :: "json list \<Rightarrow> exn + jstring" where
  "ToString JNull = Inr (units ''null'')"
| "ToString (JBool b) = Inr (if b then units ''true'' else units ''false'')"
| "ToString (JNumber t) = Inr t"
| "ToString (JString s) = Inr s"
| "ToString (JArray xs) = join xs"
| "ToString (JObject kvs) =
     (if map_of kvs (units ''toString'') = None then Inr (units ''[object Object]'')
      else Inl TypeError)"
| "join [] = Inr []"
| "join (x # xs) =
     (case (if x = JNull then Inr [] else ToString x) of
        Inl e \<Rightarrow> Inl e
      | Inr s \<Rightarrow>
          (case join xs of
             Inl e \<Rightarrow> Inl e
           | Inr r \<Rightarrow> Inr (s @ (if xs = [] then [] else units '','') @ r)))"

fun substitution :: "json option \<Rightarrow> exn + jstring" where
  "substitution None = Inr (units ''undefined'')"
| "substitution (Some v) = ToString v"

subsection \<open>The request\<close>

record request =
  url :: string
  http_method :: string
  headers :: "(string \<times> string) list"
  body :: jstring

text \<open>
  \<^verbatim>\<open>JSON.stringify({ notes })\<close> for a string \<^verbatim>\<open>notes\<close>: the key and the value quoted, no
  white space. Quoting goes through the code points of the string. It escapes the double
  quote, the backslash and the control characters, and writes a surrogate that is not part
  of a pair as \<^verbatim>\<open>\uXXXX\<close>; a leading surrogate followed by a trailing one, and every other
  code unit, is copied.
\<close>

definition hex_digit :: "nat \<Rightarrow> 16 word" where
  "hex_digit n = units ''0123456789abcdef'' ! (n mod 16)"

definition unicode_escape :: "16 word \<Rightarrow> jstring" where
  "unicode_escape c =
     units [CHR 0x5C, CHR ''u''] @
     [hex_digit (unat c div 4096), hex_digit (unat c div 256),
      hex_digit (unat c div 16), hex_digit (unat c)]"

definition is_leading :: "16 word \<Rightarrow> bool" where
  "is_leading c \<longleftrightarrow> 0xD800 \<le> c \<and> c \<le> 0xDBFF"

definition is_trailing :: "16 word \<Rightarrow> bool" where
  "is_trailing c \<longleftrightarrow> 0xDC00 \<le> c \<and> c \<le> 0xDFFF"

text \<open>A code point that is one code unit: a surrogate here stands alone.\<close>

definition quote_unit :: "16 word \<Rightarrow> jstring" where
  "quote_unit c =
     (if c = 0x08 then units [CHR 0x5C, CHR ''b'']
      else if c = 0x09 then units [CHR 0x5C, CHR ''t'']
      else if c = 0x0A then units [CHR 0x5C, CHR ''n'']
      else if c = 0x0C then units [CHR 0x5C, CHR ''f'']
      else if c = 0x0D then units [CHR 0x5C, CHR ''r'']
      else if c = 0x22 then units [CHR 0x5C, CHR 0x22]
      else if c = 0x5C then units [CHR 0x5C, CHR 0x5C]
      else if c < 0x20 \<or> is_leading c \<or> is_trailing c then unicode_escape c
      else [c])"

fun quote_units :: "jstring \<Rightarrow> jstring" where
  "quote_units [] = []"
| "quote_units [c] = quote_unit c"
| "quote_units (c # d # cs) =
     (if is_leading c \<and> is_trailing d then c # d # quote_units cs
      else quote_unit c @ quote_units (d # cs))"

definition QuoteJSONString :: "jstring \<Rightarrow> jstring" where
  "QuoteJSONString s = 0x22 # quote_units s @ [0x22]"

definition stringify_notes :: "jstring \<Rightarrow> jstring" where
  "stringify_notes notes =
     code_unit CHR ''{'' # QuoteJSONString (units ''notes'') @
     code_unit CHR '':'' # QuoteJSONString notes @ [code_unit CHR ''}'']"

definition extract_request :: "jstring \<Rightarrow> request" where
  "extract_request notes =
     \<lparr>url = ''http://127.0.0.1:5000/api/extract'',
      http_method = ''POST'',
      headers = [(''Content-Type'', ''application/json'')],
      body = stringify_notes notes\<rparr>"

subsection \<open>The answer\<close>

text \<open>
  Each of the two awaited promises is fulfilled, rejected, or never settled.
\<close>

datatype body_result = Parsed json | BodyRejected exn | BodyPending

record response =
  status :: nat
  json_result :: body_result

datatype fetch_result = Resolved response | Rejected exn | Pending

definition ok :: "response \<Rightarrow> bool" where
  "ok r \<longleftrightarrow> 200 \<le> status r \<and> status r \<le> 299"

subsection \<open>The body of the try block\<close>

definition processing_html :: jstring where
  "processing_html = units ''<p>Processing...</p>''"

definition no_items_html :: jstring where
  "no_items_html = units ''<p>No action items found.</p>''"

definition table_head :: jstring where
  "table_head = units ''<table><tr><th>Action</th><th>Assignee</th><th>Deadline</th></tr>''"

definition error_html :: jstring where
  "error_html =
     units ''<p style='color:red;'>Cannot reach Flask server. Make sure it is running.</p>''"

text \<open>The white space inside the template literal: a line break and the indentation.\<close>

definition cell_indent :: jstring where
  "cell_indent = units (CHR 0x0A # replicate 24 CHR '' '')"

definition close_indent :: jstring where
  "close_indent = units (CHR 0x0A # replicate 21 CHR '' '')"

text \<open>The template literal of the callback, for one element of the array.\<close>

definition row :: "json \<Rightarrow> exn + jstring" where
  "row item =
     (case get_member item (units ''action'') of Inl e \<Rightarrow> Inl e | Inr a \<Rightarrow>
      case substitution a of Inl e \<Rightarrow> Inl e | Inr action \<Rightarrow>
      case get_member item (units ''assignee'') of Inl e \<Rightarrow> Inl e | Inr b \<Rightarrow>
      case substitution b of Inl e \<Rightarrow> Inl e | Inr assignee \<Rightarrow>
      case get_member item (units ''deadline'') of Inl e \<Rightarrow> Inl e | Inr c \<Rightarrow>
      case substitution c of Inl e \<Rightarrow> Inl e | Inr deadline \<Rightarrow>
        Inr (units ''<tr>'' @ cell_indent @ units ''<td>'' @ action @ units ''</td>'' @
             cell_indent @ units ''<td>'' @ assignee @ units ''</td>'' @
             cell_indent @ units ''<td>'' @ deadline @ units ''</td>'' @
             close_indent @ units ''</tr>''))"

text \<open>\<^verbatim>\<open>html += ...\<close> for each element in turn; an exception ends the loop.\<close>

fun add_rows :: "json list \<Rightarrow> jstring \<Rightarrow> exn + jstring" where
  "add_rows [] html = Inr html"
| "add_rows (item # rest) html =
     (case row item of Inl e \<Rightarrow> Inl e | Inr r \<Rightarrow> add_rows rest (html @ r))"

text \<open>
  \<^verbatim>\<open>items.forEach(...)\<close>: only an array has the method; on any other value the call
  throws.
\<close>

fun forEach :: "json option \<Rightarrow> jstring \<Rightarrow> exn + jstring" where
  "forEach (Some (JArray xs)) html = add_rows xs html"
| "forEach v html = Inl TypeError"

text \<open>
  Lines 17 to 35, which run without a pause once the body is parsed: the string assigned
  to \<^verbatim>\<open>innerHTML\<close>, or the exception thrown.
\<close>

definition render_items :: "json \<Rightarrow> exn + jstring" where
  "render_items data =
     (case get_member data (units ''items'') of Inl e \<Rightarrow> Inl e | Inr items \<Rightarrow>
      case length_is_zero items of Inl e \<Rightarrow> Inl e | Inr none \<Rightarrow>
        if none then Inr no_items_html
        else
          (case forEach items table_head of
             Inl e \<Rightarrow> Inl e
           | Inr html \<Rightarrow> Inr (html @ units ''</table>'')))"

text \<open>
  Lines 14 to 35, from the answer of \<^verbatim>\<open>fetch\<close>: the string assigned to \<^verbatim>\<open>innerHTML\<close>, or
  the exception that reaches the catch block, or \<open>None\<close> when an awaited promise never
  settles. A response that is not ok throws before its body is awaited.
\<close>

definition render :: "fetch_result \<Rightarrow> (exn + jstring) option" where
  "render answer =
     (case answer of
        Pending \<Rightarrow> None
      | Rejected e \<Rightarrow> Some (Inl e)
      | Resolved r \<Rightarrow>
          if \<not> ok r then Some (Inl (Error (units ''Server error'')))
          else
            (case json_result r of
               BodyPending \<Rightarrow> None
             | BodyRejected e \<Rightarrow> Some (Inl e)
             | Parsed data \<Rightarrow> Some (render_items data)))"

subsection \<open>The document and the handler\<close>

record element =
  elem_value :: jstring
  innerHTML :: jstring

datatype event =
    GetValue string
  | SetInnerHTML string jstring
  | Fetch request
  | ConsoleError exn

record world =
  dom :: "string \<rightharpoonup> element"
  trace :: "event list"

datatype completion = Returned | Uncaught exn | Suspended

definition set_innerHTML :: "string \<Rightarrow> jstring \<Rightarrow> world \<Rightarrow> world" where
  "set_innerHTML i html w =
     w\<lparr>dom := (case dom w i of
                 None \<Rightarrow> dom w
               | Some el \<Rightarrow> (dom w)(i \<mapsto> el\<lparr>innerHTML := html\<rparr>)),
       trace := trace w @ [SetInnerHTML i html]\<rparr>"

definition emit :: "event \<Rightarrow> world \<Rightarrow> world" where
  "emit ev w = w\<lparr>trace := trace w @ [ev]\<rparr>"

text \<open>
  The click handler. \<^verbatim>\<open>getElementById\<close> gives null for a missing element, and the first
  use of null throws outside the try block: the exception is not caught. When an awaited
  promise never settles the run stays suspended, with the document as it was when the
  request was sent.
\<close>

definition click_handler :: "(request \<Rightarrow> fetch_result) \<Rightarrow> world \<Rightarrow> completion \<times> world" where
  "click_handler server w =
     (case dom w ''notes'' of
        None \<Rightarrow> (Uncaught TypeError, w)
      | Some field \<Rightarrow>
          let notes = elem_value field;
              w0 = emit (GetValue ''notes'') w
          in (case dom w0 ''results'' of
                None \<Rightarrow> (Uncaught TypeError, w0)
              | Some resultsDiv \<Rightarrow>
                  let w1 = set_innerHTML ''results'' processing_html w0;
                      req = extract_request notes;
                      w2 = emit (Fetch req) w1
                  in (case render (server req) of
                        None \<Rightarrow> (Suspended, w2)
                      | Some (Inr html) \<Rightarrow> (Returned, set_innerHTML ''results'' html w2)
                      | Some (Inl err) \<Rightarrow>
                          (Returned,
                           set_innerHTML ''results'' error_html (emit (ConsoleError err) w2)))))"

text \<open>
  Line 1, run when the popup opens: the handler is registered on the button, and a missing
  button is an exception there.
\<close>

definition popup_script ::
  "world \<Rightarrow> exn + ((request \<Rightarrow> fetch_result) \<Rightarrow> world \<Rightarrow> completion \<times> world)" where
  "popup_script w =
     (case dom w ''extractBtn'' of
        None \<Rightarrow> Inl TypeError
      | Some button \<Rightarrow> Inr click_handler)"

subsection \<open>Reading a request body back\<close>

text \<open>
  What the receiving side does with the body: JSON decoding of a text that is an object
  with one member whose value is a string, white space allowed around the tokens. A string
  literal ends at the first unescaped double quote; the escapes are the two-character ones
  and \<^verbatim>\<open>\uXXXX\<close>, which gives the code unit of that number; a raw control character is
  refused.
\<close>

definition hex_value :: "16 word \<Rightarrow> nat option" where
  "hex_value c =
     (let n = unat c in
      if 48 \<le> n \<and> n \<le> 57 then Some (n - 48)
      else if 97 \<le> n \<and> n \<le> 102 then Some (n - 87)
      else if 65 \<le> n \<and> n \<le> 70 then Some (n - 55)
      else None)"

definition hex4 :: "16 word \<Rightarrow> 16 word \<Rightarrow> 16 word \<Rightarrow> 16 word \<Rightarrow> nat option" where
  "hex4 h1 h2 h3 h4 =
     (case (hex_value h1, hex_value h2, hex_value h3, hex_value h4) of
        (Some a, Some b, Some c, Some d) \<Rightarrow> Some (((a * 16 + b) * 16 + c) * 16 + d)
      | _ \<Rightarrow> None)"

definition unescape :: "16 word \<Rightarrow> 16 word option" where
  "unescape e =
     (if e = 0x22 then Some 0x22
      else if e = 0x5C then Some 0x5C
      else if e = code_unit CHR ''/'' then Some (code_unit CHR ''/'')
      else if e = code_unit CHR ''b'' then Some 0x08
      else if e = code_unit CHR ''f'' then Some 0x0C
      else if e = code_unit CHR ''n'' then Some 0x0A
      else if e = code_unit CHR ''r'' then Some 0x0D
      else if e = code_unit CHR ''t'' then Some 0x09
      else None)"

definition prepend ::
  "16 word \<Rightarrow> (jstring \<times> jstring) option \<Rightarrow> (jstring \<times> jstring) option" where
  "prepend c r = (case r of None \<Rightarrow> None | Some (s, rest) \<Rightarrow> Some (c # s, rest))"

text \<open>The input starts after the opening quote; the result is the string and what follows it.\<close>

fun decode_string :: "jstring \<Rightarrow> (jstring \<times> jstring) option" where
  "decode_string [] = None"
| "decode_string (c # cs) =
     (if c = 0x22 then Some ([], cs)
      else if c = 0x5C then
        (case cs of
           [] \<Rightarrow> None
         | e # r \<Rightarrow>
             if e = code_unit CHR ''u'' then
               (case r of
                  h1 # h2 # h3 # h4 # r' \<Rightarrow>
                    (case hex4 h1 h2 h3 h4 of
                       None \<Rightarrow> None
                     | Some n \<Rightarrow> prepend (of_nat n) (decode_string r'))
                | _ \<Rightarrow> None)
             else
               (case unescape e of
                  None \<Rightarrow> None
                | Some d \<Rightarrow> prepend d (decode_string r)))
      else if c < 0x20 then None
      else prepend c (decode_string cs))"

definition skip_ws :: "jstring \<Rightarrow> jstring" where
  "skip_ws = dropWhile (\<lambda>c. c = 0x20 \<or> c = 0x09 \<or> c = 0x0A \<or> c = 0x0D)"

definition expect :: "16 word \<Rightarrow> jstring \<Rightarrow> jstring option" where
  "expect c s = (case skip_ws s of [] \<Rightarrow> None | d # rest \<Rightarrow> if d = c then Some rest else None)"

definition decode_string_object :: "jstring \<Rightarrow> json option" where
  "decode_string_object body_text =
     (case expect (code_unit CHR ''{'') body_text of None \<Rightarrow> None | Some t1 \<Rightarrow>
      case expect 0x22 t1 of None \<Rightarrow> None | Some t2 \<Rightarrow>
      case decode_string t2 of None \<Rightarrow> None | Some (k, t3) \<Rightarrow>
      case expect (code_unit CHR '':'') t3 of None \<Rightarrow> None | Some t4 \<Rightarrow>
      case expect 0x22 t4 of None \<Rightarrow> None | Some t5 \<Rightarrow>
      case decode_string t5 of None \<Rightarrow> None | Some (v, t6) \<Rightarrow>
      case expect (code_unit CHR ''}'') t6 of None \<Rightarrow> None | Some t7 \<Rightarrow>
        if skip_ws t7 = [] then Some (JObject [(k, JString v)]) else None)"

subsection \<open>Shapes of an answer\<close>

text \<open>
  The failure kinds of an answer that the handler tells apart before it looks into the
  body: the request is rejected, the status is outside 200 to 299, or the body is not JSON.
\<close>

definition failure_of :: "fetch_result \<Rightarrow> exn option" where
  "failure_of answer =
     (case answer of
        Rejected e \<Rightarrow> Some e
      | Resolved r \<Rightarrow>
          if \<not> (200 \<le> status r \<and> status r \<le> 299) then Some (Error (units ''Server error''))
          else (case json_result r of BodyRejected e \<Rightarrow> Some e | _ \<Rightarrow> None)
      | Pending \<Rightarrow> None)"

text \<open>
  The answers on which every promise that the run awaits settles: the request is answered
  or rejected and, where the status lets the run go on to the body, the body is parsed or
  rejected.
\<close>

definition settles :: "fetch_result \<Rightarrow> bool" where
  "settles answer =
     (case answer of
        Pending \<Rightarrow> False
      | Rejected e \<Rightarrow> True
      | Resolved r \<Rightarrow>
          if 200 \<le> status r \<and> status r \<le> 299
          then (case json_result r of BodyPending \<Rightarrow> False | _ \<Rightarrow> True)
          else True)"

text \<open>An action item as the server is expected to send it: an object with three strings.\<close>

record action_item =
  action :: jstring
  assignee :: jstring
  deadline :: jstring

fun field_of :: "json \<Rightarrow> jstring \<Rightarrow> json option" where
  "field_of (JObject kvs) k = map_of kvs k"
| "field_of v k = None"

definition as_action_item :: "json \<Rightarrow> action_item option" where
  "as_action_item v =
     (case (field_of v (units ''action''), field_of v (units ''assignee''),
            field_of v (units ''deadline'')) of
        (Some (JString a), Some (JString b), Some (JString c)) \<Rightarrow>
          Some \<lparr>action = a, assignee = b, deadline = c\<rparr>
      | _ \<Rightarrow> None)"

text \<open>
  The bodies on which the try block throws after the body was parsed. A value cannot be
  converted to a string when it is, or an array in it holds, an object with a member
  \<^verbatim>\<open>toString\<close>.
\<close>

fun unconvertible :: "json \<Rightarrow> bool" where
  "unconvertible (JObject kvs) = (map_of kvs (units ''toString'') \<noteq> None)"
| "unconvertible (JArray xs) = (\<exists>x \<in> set xs. unconvertible x)"
| "unconvertible v = False"

definition bad_item :: "json \<Rightarrow> bool" where
  "bad_item item \<longleftrightarrow>
     item = JNull \<or>
     (\<exists>k \<in> set [units ''action'', units ''assignee'', units ''deadline''].
        case field_of item k of None \<Rightarrow> False | Some v \<Rightarrow> unconvertible v)"

fun bad_items :: "json option \<Rightarrow> bool" where
  "bad_items None = True"
| "bad_items (Some JNull) = True"
| "bad_items (Some (JBool b)) = True"
| "bad_items (Some (JNumber n)) = True"
| "bad_items (Some (JString s)) = (s \<noteq> [])"
| "bad_items (Some (JObject kvs)) =
     (map_of kvs (units ''length'') \<noteq> Some (JNumber (units ''0'')))"
| "bad_items (Some (JArray xs)) = (\<exists>x \<in> set xs. bad_item x)"

definition body_throws :: "json \<Rightarrow> bool" where
  "body_throws data \<longleftrightarrow> data = JNull \<or> bad_items (field_of data (units ''items''))"

text \<open>
  What a cell of the table is expected to read for a field of an element: a string as it
  is, a number as its text, \<^verbatim>\<open>true\<close>, \<^verbatim>\<open>false\<close> and \<^verbatim>\<open>null\<close> for these values,
  \<^verbatim>\<open>undefined\<close> for a missing field, the elements of an array separated by commas (nothing
  for a null among them), \<^verbatim>\<open>[object Object]\<close> for an object.
\<close>

fun text_of :: "json \<Rightarrow> jstring"
  and joined :: "json list \<Rightarrow> jstring" where
  "text_of JNull = units ''null''"
| "text_of (JBool b) = (if b then units ''true'' else units ''false'')"
| "text_of (JNumber t) = t"
| "text_of (JString s) = s"
| "text_of (JArray xs) = joined xs"
| "text_of (JObject kvs) = units ''[object Object]''"
| "joined [] = []"
| "joined (x # xs) =
     (if x = JNull then [] else text_of x) @ (if xs = [] then [] else units '','') @ joined xs"

fun cell_text :: "json option \<Rightarrow> jstring" where
  "cell_text None = units ''undefined''"
| "cell_text (Some v) = text_of v"

text \<open>
  The row that the table is expected to have for an element of the array: its action,
  assignee and deadline as cells, in this order.
\<close>

definition table_row :: "json \<Rightarrow> jstring" where
  "table_row item =
     units ''<tr>\<newline>                        <td>'' @
     cell_text (field_of item (units ''action'')) @
     units ''</td>\<newline>                        <td>'' @
     cell_text (field_of item (units ''assignee'')) @
     units ''</td>\<newline>                        <td>'' @
     cell_text (field_of item (units ''deadline'')) @
     units ''</td>\<newline>                     </tr>''"

text \<open>The same row for an action item: the three strings as they are.\<close>

definition item_row :: "action_item \<Rightarrow> jstring" where
  "item_row it =
     units ''<tr>\<newline>                        <td>'' @ action it @
     units ''</td>\<newline>                        <td>'' @ assignee it @
     units ''</td>\<newline>                        <td>'' @ deadline it @
     units ''</td>\<newline>                     </tr>''"

subsection \<open>Reading a run\<close>

text \<open>
  What ends a run that got as far as the request: the string the results region is left
  with and the effects after the request, from what the try block gave.
\<close>

definition final_html :: "(exn + jstring) option \<Rightarrow> jstring" where
  "final_html res =
     (case res of
        None \<Rightarrow> processing_html
      | Some (Inl err) \<Rightarrow> error_html
      | Some (Inr html) \<Rightarrow> html)"

definition final_events :: "(exn + jstring) option \<Rightarrow> event list" where
  "final_events res =
     (case res of
        None \<Rightarrow> []
      | Some (Inl err) \<Rightarrow> [ConsoleError err, SetInnerHTML ''results'' error_html]
      | Some (Inr html) \<Rightarrow> [SetInnerHTML ''results'' html])"

definition final_completion :: "(exn + jstring) option \<Rightarrow> completion" where
  "final_completion res = (case res of None \<Rightarrow> Suspended | Some r \<Rightarrow> Returned)"

text \<open>The requests, the reads of a value and the ids written to, in a list of effects.\<close>

fun requests :: "event list \<Rightarrow> request list" where
  "requests [] = []"
| "requests (Fetch req # evs) = req # requests evs"
| "requests (ev # evs) = requests evs"

fun reads :: "event list \<Rightarrow> string list" where
  "reads [] = []"
| "reads (GetValue i # evs) = i # reads evs"
| "reads (ev # evs) = reads evs"

fun written :: "event list \<Rightarrow> string list" where
  "written [] = []"
| "written (SetInnerHTML i html # evs) = i # written evs"
| "written (ev # evs) = written evs"

text \<open>
  The document that a list of effects leaves: each assignment to \<^verbatim>\<open>innerHTML\<close> in turn,
  on the element it names.
\<close>

fun replay :: "event list \<Rightarrow> (string \<rightharpoonup> element) \<Rightarrow> (string \<rightharpoonup> element)" where
  "replay [] d = d"
| "replay (SetInnerHTML i html # evs) d =
     replay evs (case d i of None \<Rightarrow> d | Some el \<Rightarrow> d(i \<mapsto> el\<lparr>innerHTML := html\<rparr>))"
| "replay (ev # evs) d = replay evs d"

text \<open>
  A string in which every surrogate is part of a pair, which is what can be sent as UTF-8
  without loss.
\<close>

fun well_formed :: "jstring \<Rightarrow> bool" where
  "well_formed [] = True"
| "well_formed [c] = (\<not> is_leading c \<and> \<not> is_trailing c)"
| "well_formed (c # d # cs) =
     (if is_leading c then is_trailing d \<and> well_formed cs
      else \<not> is_trailing c \<and> well_formed (d # cs))"

text \<open>
  A document to run the handler on, with the button, the text field holding the given
  notes and the empty results region, and the answers of a server.
\<close>

definition document_with :: "jstring \<Rightarrow> world" where
  "document_with notes =
     \<lparr>dom = [''extractBtn'' \<mapsto> \<lparr>elem_value = [], innerHTML = units ''Extract''\<rparr>,
             ''notes'' \<mapsto> \<lparr>elem_value = notes, innerHTML = []\<rparr>,
             ''results'' \<mapsto> \<lparr>elem_value = [], innerHTML = []\<rparr>],
      trace = []\<rparr>"

definition popup_document :: world where
  "popup_document = document_with (units ''Alice ships the report'')"

definition answers :: "nat \<Rightarrow> json \<Rightarrow> request \<Rightarrow> fetch_result" where
  "answers code data req = Resolved \<lparr>status = code, json_result = Parsed data\<rparr>"

section \<open>Properties\<close>

subsection \<open>Code units of literals\<close>

lemma unat_code_unit: "unat (code_unit c) = of_char c"
proof -
  have "(of_char c :: nat) < 256" by simp
  also have "(256 :: nat) < 65536" by simp
  finally show ?thesis
    by (simp add: code_unit_def unat_of_nat)
qed

lemma code_unit_eq_iff [simp]: "code_unit c = code_unit d \<longleftrightarrow> c = d"
proof
  assume "code_unit c = code_unit d"
  then have "unat (code_unit c) = unat (code_unit d)" by simp
  then show "c = d" by (simp add: unat_code_unit)
qed simp

lemma units_simps [simp]:
  "units [] = []"
  "units (c # cs) = code_unit c # units cs"
  "units (xs @ ys) = units xs @ units ys"
  by (simp_all add: units_def)

subsection \<open>One run of the handler\<close>

lemma click_handler_run:
  assumes "dom w ''notes'' = Some field" and "dom w ''results'' = Some resultsDiv"
  shows "click_handler server w =
           (final_completion (render (server (extract_request (elem_value field)))),
            w\<lparr>dom := (dom w)(''results'' \<mapsto>
                 resultsDiv\<lparr>innerHTML :=
                   final_html (render (server (extract_request (elem_value field))))\<rparr>),
              trace := trace w @
                [GetValue ''notes'', SetInnerHTML ''results'' processing_html,
                 Fetch (extract_request (elem_value field))] @
                final_events (render (server (extract_request (elem_value field))))\<rparr>)"
  using assms
  by (simp add: click_handler_def Let_def set_innerHTML_def emit_def final_html_def
      final_events_def final_completion_def split: sum.split option.split)

lemma render_failure:
  "failure_of answer = Some err \<Longrightarrow> render answer = Some (Inl err)"
  by (auto simp: failure_of_def render_def ok_def
      split: fetch_result.splits body_result.splits if_splits)

lemma render_settles: "render answer \<noteq> None \<longleftrightarrow> settles answer"
  by (auto simp: settles_def render_def ok_def
      split: fetch_result.splits body_result.splits if_splits)

lemma requests_final_events: "requests (final_events res) = []"
  by (auto simp: final_events_def split: option.splits sum.splits)

lemma final_events_frame:
  "reads (final_events res) = [] \<and> set (written (final_events res)) \<subseteq> {''results''}"
  by (auto simp: final_events_def split: option.splits sum.splits)

subsection \<open>String conversion\<close>

lemma ToString_join_error:
  "ToString v = Inl e \<longrightarrow> e = TypeError"
  "join xs = Inl e \<longrightarrow> e = TypeError"
  by (induction v and xs rule: ToString_join.induct) (auto split: sum.splits if_splits)

lemma ToString_join_throws:
  "(\<exists>e. ToString v = Inl e) \<longleftrightarrow> unconvertible v"
  "(\<exists>e. join xs = Inl e) \<longleftrightarrow> (\<exists>x \<in> set xs. unconvertible x)"
proof (induction v and xs rule: ToString_join.induct)
  case (8 x xs)
  then show ?case
    by (cases "x = JNull") (auto split: sum.splits)
qed auto

lemma ToString_throws: "unconvertible v \<Longrightarrow> ToString v = Inl TypeError"
  using ToString_join_throws(1) [of v] ToString_join_error(1) [of v] by blast

lemma ToString_join_text:
  "\<not> unconvertible v \<longrightarrow> ToString v = Inr (text_of v)"
  "(\<forall>x \<in> set xs. \<not> unconvertible x) \<longrightarrow> join xs = Inr (joined xs)"
  by (induction v and xs rule: ToString_join.induct) auto

lemma ToString_gives: "\<not> unconvertible v \<Longrightarrow> ToString v = Inr (text_of v)"
  using ToString_join_text(1) by blast

lemma get_member_field_of:
  "item \<noteq> JNull \<Longrightarrow> get_member item k = Inr (field_of item k)"
  by (cases item) auto

subsection \<open>The rows\<close>

lemma substitution_gives:
  "(case a of None \<Rightarrow> True | Some v \<Rightarrow> \<not> unconvertible v) \<Longrightarrow>
   substitution a = Inr (cell_text a)"
  by (cases a) (simp_all add: ToString_gives)

lemma row_throws: "bad_item item \<Longrightarrow> row item = Inl TypeError"
proof (cases "item = JNull")
  case True
  then show ?thesis by (simp add: row_def)
next
  case False
  assume bad: "bad_item item"
  have m: "get_member item k = Inr (field_of item k)" for k
    using False by (rule get_member_field_of)
  have s: "substitution a = Inl e \<Longrightarrow> e = TypeError" for a e
    using ToString_join_error(1) by (cases a) auto
  have "\<exists>k \<in> {units ''action'', units ''assignee'', units ''deadline''}.
          substitution (field_of item k) = Inl TypeError"
    using bad False ToString_throws
    by (auto simp: bad_item_def split: option.splits)
  then show ?thesis
    using s by (auto simp: row_def m split: sum.splits)
qed

lemma row_gives: "\<not> bad_item item \<Longrightarrow> row item = Inr (table_row item)"
proof -
  assume nb: "\<not> bad_item item"
  then have n: "item \<noteq> JNull" by (auto simp: bad_item_def)
  have m: "get_member item k = Inr (field_of item k)" for k
    using n by (rule get_member_field_of)
  have "case field_of item k of None \<Rightarrow> True | Some v \<Rightarrow> \<not> unconvertible v"
    if "k \<in> {units ''action'', units ''assignee'', units ''deadline''}" for k
    using nb that by (auto simp: bad_item_def split: option.splits)
  then have "substitution (field_of item (units ''action'')) =
        Inr (cell_text (field_of item (units ''action'')))"
    and "substitution (field_of item (units ''assignee'')) =
        Inr (cell_text (field_of item (units ''assignee'')))"
    and "substitution (field_of item (units ''deadline'')) =
        Inr (cell_text (field_of item (units ''deadline'')))"
    by (simp_all add: substitution_gives)
  then show ?thesis
    by (simp add: row_def table_row_def m cell_indent_def close_indent_def eval_nat_numeral)
qed

lemma add_rows_throws:
  "\<exists>x \<in> set xs. bad_item x \<Longrightarrow> add_rows xs html = Inl TypeError"
proof (induction xs arbitrary: html)
  case Nil
  then show ?case by simp
next
  case (Cons x xs)
  show ?case
  proof (cases "bad_item x")
    case True
    then show ?thesis by (simp add: row_throws)
  next
    case False
    then have "row x = Inr (table_row x)" by (rule row_gives)
    moreover have "\<exists>y \<in> set xs. bad_item y" using Cons.prems False by auto
    ultimately show ?thesis using Cons.IH by simp
  qed
qed

lemma add_rows_gives:
  "\<forall>x \<in> set xs. \<not> bad_item x \<Longrightarrow>
   add_rows xs html = Inr (html @ concat (map table_row xs))"
proof (induction xs arbitrary: html)
  case Nil
  then show ?case by simp
next
  case (Cons x xs)
  from Cons.prems have "row x = Inr (table_row x)" by (simp add: row_gives)
  moreover from Cons.prems have "\<forall>y \<in> set xs. \<not> bad_item y" by simp
  ultimately show ?case using Cons.IH by simp
qed

lemma table_row_action_item:
  assumes "as_action_item x = Some it"
  shows "table_row x = item_row it \<and> \<not> bad_item x"
proof (cases x)
  case (JObject kvs)
  with assms show ?thesis
    by (auto simp: as_action_item_def table_row_def item_row_def bad_item_def
        split: option.splits json.splits)
qed (use assms in \<open>simp_all add: as_action_item_def\<close>)

lemma table_rows_action_items:
  "map as_action_item xs = map Some its \<Longrightarrow> map table_row xs = map item_row its"
proof (induction xs arbitrary: its)
  case Nil
  then show ?case by simp
next
  case (Cons x xs)
  then obtain it rest where "its = it # rest" and "as_action_item x = Some it"
    and "map as_action_item xs = map Some rest"
    by (cases its) auto
  then show ?case
    using Cons.IH table_row_action_item by simp
qed

subsection \<open>The try block on a parsed body\<close>

lemma render_items_throws:
  assumes "body_throws data"
  shows "render_items data = Inl TypeError"
proof (cases "data = JNull")
  case True
  then show ?thesis by (simp add: render_items_def)
next
  case False
  then have bad: "bad_items (field_of data (units ''items''))"
    using assms by (simp add: body_throws_def)
  have m: "get_member data (units ''items'') = Inr (field_of data (units ''items''))"
    using False by (rule get_member_field_of)
  show ?thesis
  proof (cases "field_of data (units ''items'')")
    case None
    with m show ?thesis by (simp add: render_items_def)
  next
    case (Some items)
    with bad m show ?thesis
      by (cases items) (auto simp: render_items_def add_rows_throws)
  qed
qed

lemma render_items_gives:
  assumes "\<not> body_throws data"
  shows "render_items data =
           Inr (case field_of data (units ''items'') of
                  Some (JArray (x # xs)) \<Rightarrow>
                    table_head @ concat (map table_row (x # xs)) @ units ''</table>''
                | _ \<Rightarrow> no_items_html)"
proof -
  from assms have n: "data \<noteq> JNull"
    and good: "\<not> bad_items (field_of data (units ''items''))"
    by (auto simp: body_throws_def)
  have m: "get_member data (units ''items'') = Inr (field_of data (units ''items''))"
    using n by (rule get_member_field_of)
  from good obtain items where it: "field_of data (units ''items'') = Some items"
    by (cases "field_of data (units ''items'')") auto
  show ?thesis
  proof (cases items)
    case (JArray ys)
    show ?thesis
    proof (cases ys)
      case Nil
      with JArray it m show ?thesis by (simp add: render_items_def)
    next
      case (Cons x xs)
      from good it JArray have "\<forall>y \<in> set ys. \<not> bad_item y" by simp
      then have "add_rows ys table_head = Inr (table_head @ concat (map table_row ys))"
        by (rule add_rows_gives)
      with Cons JArray it m show ?thesis by (simp add: render_items_def)
    qed
  qed (use good it m in \<open>auto simp: render_items_def\<close>)
qed

lemma render_parsed:
  assumes "200 \<le> status r \<and> status r \<le> 299" and "json_result r = Parsed data"
  shows "render (Resolved r) = Some (render_items data)"
  using assms by (simp add: render_def ok_def)

subsection \<open>The request body\<close>

lemma hex_value_digits: "\<forall>m \<in> set [0..<16]. hex_value (hex_digit m) = Some m"
  by (simp add: hex_value_def hex_digit_def unat_code_unit upt_rec)

lemma hex_value_digit: "hex_value (hex_digit k) = Some (k mod 16)"
proof -
  have "k mod 16 \<in> set [0..<16]"
    by simp
  with hex_value_digits have "hex_value (hex_digit (k mod 16)) = Some (k mod 16)"
    by blast
  then show ?thesis
    by (simp add: hex_digit_def)
qed

lemma hex4_value:
  assumes "(u::nat) < 65536"
  shows "((u div 4096 mod 16 * 16 + u div 256 mod 16) * 16 + u div 16 mod 16) * 16 + u mod 16 = u"
proof -
  define a where "a = u div 16"
  define b where "b = a div 16"
  define c where "c = b div 16"
  have 1: "u div 256 = b" and 2: "u div 4096 = c"
    by (simp_all add: a_def b_def c_def div_mult2_eq)
  have "c < 16"
    using assms unfolding 2 [symmetric] by simp
  then have 3: "c mod 16 = c" by simp
  have "c * 16 + b mod 16 = b" "b * 16 + a mod 16 = a" "a * 16 + u mod 16 = u"
    by (simp_all add: a_def b_def c_def)
  then show ?thesis
    by (simp add: 1 2 3 a_def [symmetric])
qed

lemma hex4_digits:
  assumes "u < 65536"
  shows "hex4 (hex_digit (u div 4096)) (hex_digit (u div 256)) (hex_digit (u div 16))
           (hex_digit u) = Some u"
proof -
  have "hex4 (hex_digit (u div 4096)) (hex_digit (u div 256)) (hex_digit (u div 16))
      (hex_digit u) =
      Some (((u div 4096 mod 16 * 16 + u div 256 mod 16) * 16 + u div 16 mod 16) * 16 + u mod 16)"
    by (simp only: hex4_def hex_value_digit prod.case option.case)
  then show ?thesis
    by (simp only: hex4_value [OF assms])
qed

lemma decode_escape:
  assumes "unescape e = Some d" and "e \<noteq> code_unit CHR ''u''"
  shows "decode_string (0x5C # e # t) = prepend d (decode_string t)"
  using assms by simp

lemma decode_unicode_escape:
  "decode_string (unicode_escape c @ t) = prepend c (decode_string t)"
proof -
  have "unat c < 65536"
    using unsigned_less [of c] by simp
  then have "hex4 (hex_digit (unat c div 4096)) (hex_digit (unat c div 256))
      (hex_digit (unat c div 16)) (hex_digit (unat c)) = Some (unat c)"
    by (rule hex4_digits)
  then show ?thesis
    by (simp add: unicode_escape_def code_unit_def)
qed

lemma decode_raw:
  assumes "c \<noteq> 0x22" and "c \<noteq> 0x5C" and "\<not> c < 0x20"
  shows "decode_string (c # t) = prepend c (decode_string t)"
  using assms by simp

lemma quote_unit_cases:
  "c = 0x08 \<or> c = 0x09 \<or> c = 0x0A \<or> c = 0x0C \<or> c = 0x0D \<or> c = 0x22 \<or> c = 0x5C \<or>
   quote_unit c = unicode_escape c \<or>
   (quote_unit c = [c] \<and> c \<noteq> 0x22 \<and> c \<noteq> 0x5C \<and> \<not> c < 0x20)"
  by (simp add: quote_unit_def)

lemma decode_quote_unit:
  "decode_string (quote_unit c @ t) = prepend c (decode_string t)"
proof -
  consider "c = 0x08" | "c = 0x09" | "c = 0x0A" | "c = 0x0C" | "c = 0x0D" | "c = 0x22"
    | "c = 0x5C"
    | "quote_unit c = unicode_escape c"
    | "quote_unit c = [c]" "c \<noteq> 0x22" "c \<noteq> 0x5C" "\<not> c < 0x20"
    using quote_unit_cases [of c] by blast
  then show ?thesis
  proof cases
    case 8
    then show ?thesis by (simp only: decode_unicode_escape)
  next
    case 9
    then show ?thesis using decode_raw [of c t] by (simp del: decode_string.simps)
  qed (simp_all add: quote_unit_def unescape_def code_unit_def)
qed

lemma surrogate_is_raw:
  assumes "is_leading c \<or> is_trailing c"
  shows "c \<noteq> 0x22 \<and> c \<noteq> 0x5C \<and> \<not> c < 0x20"
  using assms by (auto simp: is_leading_def is_trailing_def word_le_nat_alt word_less_nat_alt)

lemma decode_quoted:
  "decode_string (quote_units s @ 0x22 # rest) = Some (s, rest)"
proof (induction s rule: quote_units.induct)
  case 1
  show ?case by simp
next
  case (2 c)
  have "decode_string (quote_unit c @ 0x22 # rest) = prepend c (decode_string (0x22 # rest))"
    by (rule decode_quote_unit)
  then show ?case by (simp add: prepend_def)
next
  case (3 c d cs)
  show ?case
  proof (cases "is_leading c \<and> is_trailing d")
    case True
    have "decode_string (c # d # quote_units cs @ 0x22 # rest) =
        prepend c (decode_string (d # quote_units cs @ 0x22 # rest))"
      using True surrogate_is_raw [of c] by (intro decode_raw) simp_all
    also have "decode_string (d # quote_units cs @ 0x22 # rest) =
        prepend d (decode_string (quote_units cs @ 0x22 # rest))"
      using True surrogate_is_raw [of d] by (intro decode_raw) simp_all
    finally show ?thesis
      using True "3.IH"(1) by (simp add: prepend_def del: decode_string.simps)
  next
    case False
    have "decode_string (quote_unit c @ quote_units (d # cs) @ 0x22 # rest) =
        prepend c (decode_string (quote_units (d # cs) @ 0x22 # rest))"
      by (rule decode_quote_unit)
    moreover have "quote_units (c # d # cs) = quote_unit c @ quote_units (d # cs)"
      using False by auto
    ultimately show ?thesis
      using False "3.IH"(2) by (simp add: prepend_def del: quote_units.simps)
  qed
qed

lemma expect_quoted:
  "expect 0x22 (QuoteJSONString s @ rest) = Some (quote_units s @ 0x22 # rest)"
  by (simp add: expect_def skip_ws_def QuoteJSONString_def)

lemma decode_stringify_notes:
  "decode_string_object (stringify_notes notes) =
     Some (JObject [(units ''notes'', JString notes)])"
proof -
  let ?quoted = "QuoteJSONString notes @ [code_unit CHR ''}'']"
  let ?pair = "QuoteJSONString (units ''notes'') @ code_unit CHR '':'' # ?quoted"
  have 1: "expect (code_unit CHR ''{'') (stringify_notes notes) = Some ?pair"
    by (simp add: expect_def skip_ws_def stringify_notes_def code_unit_def)
  have 2: "expect 0x22 ?pair =
      Some (quote_units (units ''notes'') @ 0x22 # code_unit CHR '':'' # ?quoted)"
    by (rule expect_quoted)
  have 3: "decode_string (quote_units (units ''notes'') @ 0x22 # code_unit CHR '':'' # ?quoted) =
      Some (units ''notes'', code_unit CHR '':'' # ?quoted)"
    by (rule decode_quoted)
  have 4: "expect (code_unit CHR '':'') (code_unit CHR '':'' # ?quoted) = Some ?quoted"
    by (simp add: expect_def skip_ws_def code_unit_def)
  have 5: "expect 0x22 ?quoted = Some (quote_units notes @ 0x22 # [code_unit CHR ''}''])"
    by (rule expect_quoted)
  have 6: "decode_string (quote_units notes @ 0x22 # [code_unit CHR ''}'']) =
      Some (notes, [code_unit CHR ''}''])"
    by (rule decode_quoted)
  have 7: "expect (code_unit CHR ''}'') [code_unit CHR ''}''] = Some []"
    by (simp add: expect_def skip_ws_def code_unit_def)
  show ?thesis
    unfolding decode_string_object_def
    by (simp only: 1 2 3 4 5 6 7 option.case prod.case) (simp add: skip_ws_def)
qed

lemma well_formed_plain:
  assumes "\<forall>x \<in> set a. \<not> is_leading x \<and> \<not> is_trailing x"
  shows "well_formed (a @ t) = well_formed t"
  using assms
proof (induction a)
  case Nil
  show ?case by simp
next
  case (Cons x a)
  then have x: "\<not> is_leading x" "\<not> is_trailing x" and IH: "well_formed (a @ t) = well_formed t"
    by simp_all
  show ?case
  proof (cases "a @ t")
    case Nil
    with x IH show ?thesis by simp
  next
    case (Cons y ys)
    with x IH show ?thesis by simp
  qed
qed

lemma plain_hex_digit: "\<not> is_leading (hex_digit k) \<and> \<not> is_trailing (hex_digit k)"
proof -
  have "k mod 16 \<in> set [0..<16]" by simp
  moreover have "\<forall>m \<in> set [0..<16].
      \<not> is_leading (units ''0123456789abcdef'' ! m) \<and>
      \<not> is_trailing (units ''0123456789abcdef'' ! m)"
    by (simp add: is_leading_def is_trailing_def code_unit_def upt_conv_Cons)
  ultimately show ?thesis
    unfolding hex_digit_def by blast
qed

lemma plain_quote_unit:
  "\<forall>x \<in> set (quote_unit c). \<not> is_leading x \<and> \<not> is_trailing x"
  using plain_hex_digit
  by (auto simp: quote_unit_def unicode_escape_def code_unit_def is_leading_def is_trailing_def)

lemma well_formed_quote_units: "well_formed (quote_units s @ t) = well_formed t"
proof (induction s rule: quote_units.induct)
  case 1
  show ?case by simp
next
  case (2 c)
  show ?case using plain_quote_unit [of c] by (simp add: well_formed_plain)
next
  case (3 c d cs)
  show ?case
  proof (cases "is_leading c \<and> is_trailing d")
    case True
    with 3 show ?thesis by simp
  next
    case False
    then have "quote_units (c # d # cs) = quote_unit c @ quote_units (d # cs)"
      by auto
    then show ?thesis
      using False "3.IH"(2) plain_quote_unit [of c]
      by (simp add: well_formed_plain del: quote_units.simps)
  qed
qed

lemma well_formed_ascii:
  "well_formed (code_unit c # t) = well_formed t"
proof -
  have "(of_char c :: nat) < 256" by simp
  then have "unat (code_unit c) < 256" by (simp add: unat_code_unit)
  then have "\<forall>x \<in> set [code_unit c]. \<not> is_leading x \<and> \<not> is_trailing x"
    by (auto simp: is_leading_def is_trailing_def word_le_nat_alt)
  then have "well_formed ([code_unit c] @ t) = well_formed t"
    by (rule well_formed_plain)
  then show ?thesis by simp
qed

lemma well_formed_QuoteJSONString:
  "well_formed (QuoteJSONString s @ t) = well_formed t"
proof -
  have q: "(0x22 :: 16 word) = code_unit CHR 0x22"
    by (simp add: code_unit_def)
  have "well_formed (QuoteJSONString s @ t) =
      well_formed (code_unit CHR 0x22 # quote_units s @ code_unit CHR 0x22 # t)"
    by (simp add: QuoteJSONString_def q)
  also have "\<dots> = well_formed t"
    by (simp only: well_formed_ascii well_formed_quote_units)
  finally show ?thesis .
qed

lemma well_formed_stringify_notes: "well_formed (stringify_notes notes)"
proof -
  have "well_formed (stringify_notes notes) =
      well_formed (code_unit CHR ''{'' # QuoteJSONString (units ''notes'') @
        code_unit CHR '':'' # QuoteJSONString notes @ code_unit CHR ''}'' # [])"
    by (simp only: stringify_notes_def)
  also have "\<dots> = well_formed []"
    by (simp only: well_formed_ascii well_formed_QuoteJSONString)
  finally show ?thesis by simp
qed

lemma rendered_shape:
  assumes "render answer = Some (Inr html)"
  shows "html = units ''<p>No action items found.</p>'' \<or>
         (\<exists>t. html =
            units ''<table><tr><th>Action</th><th>Assignee</th><th>Deadline</th></tr>'' @ t @
            units ''</table>'')"
proof -
  from assms obtain data where ri: "render_items data = Inr html"
    by (auto simp: render_def split: fetch_result.splits body_result.splits if_splits)
  then have "\<not> body_throws data"
    using render_items_throws [of data] by auto
  then have "html =
      (case field_of data (units ''items'') of
         Some (JArray (x # xs)) \<Rightarrow>
           units ''<table><tr><th>Action</th><th>Assignee</th><th>Deadline</th></tr>'' @
           concat (map table_row (x # xs)) @ units ''</table>''
       | _ \<Rightarrow> units ''<p>No action items found.</p>'')"
    using ri render_items_gives [unfolded table_head_def no_items_html_def, of data]
    by (simp del: units_simps)
  then show ?thesis
    by (auto split: option.splits json.splits list.splits simp del: units_simps)
qed

section \<open>The claims\<close>

text \<open>
  The script presupposes a document with the text field \<^verbatim>\<open>notes\<close> and the region
  \<^verbatim>\<open>results\<close>; the theorems about a run that reaches the request assume both.
\<close>

text \<open>
  C1. When the request is rejected, or the response has a status outside 200 to 299, or
  its body is not JSON, the handler logs the error to the console and then assigns to the
  results region the one fixed, styled paragraph that tells the user to make sure the server
  is running. The effects and the document after the run are the same for the three kinds
  of failure, but for the error logged.
\<close>

theorem failure_shows_fixed_error:
  assumes "dom w ''notes'' = Some field" and "dom w ''results'' = Some resultsDiv"
    and "failure_of (server (extract_request (elem_value field))) = Some err"
  shows "click_handler server w =
           (Returned,
            w\<lparr>dom := (dom w)(''results'' \<mapsto> resultsDiv\<lparr>innerHTML :=
                 units ''<p style='color:red;'>Cannot reach Flask server. Make sure it is running.</p>''\<rparr>),
              trace := trace w @
                [GetValue ''notes'',
                 SetInnerHTML ''results'' (units ''<p>Processing...</p>''),
                 Fetch (extract_request (elem_value field)),
                 ConsoleError err,
                 SetInnerHTML ''results''
                   (units ''<p style='color:red;'>Cannot reach Flask server. Make sure it is running.</p>'')]\<rparr>)"
proof -
  from assms(3) have "render (server (extract_request (elem_value field))) = Some (Inl err)"
    by (rule render_failure)
  then show ?thesis
    by (simp add: click_handler_run [OF assms(1,2)] final_html_def final_events_def
        final_completion_def error_html_def processing_html_def)
qed

theorem failure_shows_fixed_error_witness:
  "dom popup_document ''notes'' =
     Some \<lparr>elem_value = units ''Alice ships the report'', innerHTML = []\<rparr> \<and>
   dom popup_document ''results'' = Some \<lparr>elem_value = [], innerHTML = []\<rparr> \<and>
   failure_of (Rejected TypeError) = Some TypeError \<and>
   failure_of (answers 500 JNull (extract_request (units ''Alice ships the report''))) =
     Some (Error (units ''Server error'')) \<and>
   failure_of (Resolved \<lparr>status = 200, json_result = BodyRejected SyntaxError\<rparr>) =
     Some SyntaxError \<and>
   map_option innerHTML (dom (snd (click_handler (\<lambda>req. Rejected TypeError) popup_document))
     ''results'') =
     Some (units ''<p style='color:red;'>Cannot reach Flask server. Make sure it is running.</p>'') \<and>
   map_option innerHTML (dom (snd (click_handler (answers 500 JNull) popup_document))
     ''results'') =
     Some (units ''<p style='color:red;'>Cannot reach Flask server. Make sure it is running.</p>'') \<and>
   map_option innerHTML
     (dom (snd (click_handler
        (\<lambda>req. Resolved \<lparr>status = 200, json_result = BodyRejected SyntaxError\<rparr>)
        popup_document)) ''results'') =
     Some (units ''<p style='color:red;'>Cannot reach Flask server. Make sure it is running.</p>'')"
proof -
  let ?field = "\<lparr>elem_value = units ''Alice ships the report'', innerHTML = []\<rparr>"
  have n: "dom popup_document ''notes'' = Some ?field"
    and r: "dom popup_document ''results'' = Some \<lparr>elem_value = [], innerHTML = []\<rparr>"
    by (simp_all add: popup_document_def document_with_def)
  have f1: "failure_of ((\<lambda>req. Rejected TypeError)
      (extract_request (elem_value ?field))) = Some TypeError"
    by (simp add: failure_of_def)
  have f2: "failure_of (answers 500 JNull (extract_request (elem_value ?field))) =
      Some (Error (units ''Server error''))"
    by (simp add: failure_of_def answers_def)
  have f3: "failure_of
      ((\<lambda>req. Resolved \<lparr>status = 200, json_result = BodyRejected SyntaxError\<rparr>)
      (extract_request (elem_value ?field))) = Some SyntaxError"
    by (simp add: failure_of_def)
  show ?thesis
    using n r f1 f2 f3
      failure_shows_fixed_error [where server = "\<lambda>req. Rejected TypeError", OF n r f1]
      failure_shows_fixed_error [where server = "answers 500 JNull", OF n r f2]
      failure_shows_fixed_error [where server =
        "\<lambda>req. Resolved \<lparr>status = 200, json_result = BodyRejected SyntaxError\<rparr>", OF n r f3]
    by simp
qed

text \<open>
  C2, as claimed, says that every parsed body of the wrong shape ends in the error message.
  The handler checks no shape of a parsed body: it fails only where reading
  \<^verbatim>\<open>data.items.length\<close>, calling \<^verbatim>\<open>items.forEach\<close> or converting a cell to a string
  throws. So a body of the wrong shape need not end in the error message: on
  \<^verbatim>\<open>{"items": ""}\<close> the run ends with the empty-state message, and on \<^verbatim>\<open>{"items": [{}]}\<close>,
  whose one element is no action item, with a table whose cells read \<^verbatim>\<open>undefined\<close>.
\<close>

theorem malformed_body_counterexample:
  "map_option innerHTML
     (dom (snd (click_handler (answers 200 (JObject [(units ''items'', JString [])]))
        popup_document)) ''results'') = Some (units ''<p>No action items found.</p>'') \<and>
   map_option innerHTML
     (dom (snd (click_handler (answers 200 (JObject [(units ''items'', JArray [JObject []])]))
        popup_document)) ''results'') =
     Some (units ''<table><tr><th>Action</th><th>Assignee</th><th>Deadline</th></tr><tr>\<newline>                        <td>undefined</td>\<newline>                        <td>undefined</td>\<newline>                        <td>undefined</td>\<newline>                     </tr></table>'') \<and>
   as_action_item (JObject []) = None \<and>
   units ''<p>No action items found.</p>'' \<noteq>
     units ''<p style='color:red;'>Cannot reach Flask server. Make sure it is running.</p>''"
proof -
  have n: "dom popup_document ''notes'' =
      Some \<lparr>elem_value = units ''Alice ships the report'', innerHTML = []\<rparr>"
    and d: "dom popup_document ''results'' = Some \<lparr>elem_value = [], innerHTML = []\<rparr>"
    by (simp_all add: popup_document_def document_with_def)
  have 1: "render (answers 200 (JObject [(units ''items'', JString [])]) req) =
      Some (Inr (units ''<p>No action items found.</p>''))" for req
    by (simp add: answers_def render_def ok_def render_items_def no_items_html_def)
  have 2: "render (answers 200 (JObject [(units ''items'', JArray [JObject []])]) req) =
      Some (Inr (units ''<table><tr><th>Action</th><th>Assignee</th><th>Deadline</th></tr><tr>\<newline>                        <td>undefined</td>\<newline>                        <td>undefined</td>\<newline>                        <td>undefined</td>\<newline>                     </tr></table>''))" for req
    by (simp add: answers_def render_def ok_def render_items_def row_def table_head_def
        cell_indent_def close_indent_def eval_nat_numeral)
  show ?thesis
    using 1 2
    by (simp add: click_handler_run [OF n d] final_html_def as_action_item_def)
qed

text \<open>
  C2, as amended. For a response with a status in 200 to 299 whose body parses as JSON, the
  handler logs a TypeError and then shows the fixed error message exactly when the body is
  null, or \<^verbatim>\<open>items\<close> is missing, null, a boolean, a number, a non-empty string, an object
  whose own \<^verbatim>\<open>length\<close> is not the number 0, or an array with an element that is null or
  that has an \<^verbatim>\<open>action\<close>, \<^verbatim>\<open>assignee\<close> or \<^verbatim>\<open>deadline\<close> which cannot be converted to a
  string. On every other body nothing is logged and the content is displayed: for a
  non-empty array the table with one row for each element, and the empty-state message
  otherwise.
\<close>

theorem body_that_throws:
  assumes "dom w ''notes'' = Some field" and "dom w ''results'' = Some resultsDiv"
    and "server (extract_request (elem_value field)) = Resolved r"
    and "200 \<le> status r \<and> status r \<le> 299"
    and "json_result r = Parsed data"
  shows "\<exists>w' evs el.
           click_handler server w = (Returned, w') \<and>
           trace w' = trace w @ evs \<and>
           dom w' ''results'' = Some el \<and>
           (if body_throws data
            then evs =
                   [GetValue ''notes'',
                    SetInnerHTML ''results'' (units ''<p>Processing...</p>''),
                    Fetch (extract_request (elem_value field)),
                    ConsoleError TypeError,
                    SetInnerHTML ''results''
                      (units ''<p style='color:red;'>Cannot reach Flask server. Make sure it is running.</p>'')] \<and>
                 innerHTML el =
                   units ''<p style='color:red;'>Cannot reach Flask server. Make sure it is running.</p>''
            else (\<forall>err. ConsoleError err \<notin> set evs) \<and>
                 innerHTML el =
                   (case field_of data (units ''items'') of
                      Some (JArray (x # xs)) \<Rightarrow>
                        units ''<table><tr><th>Action</th><th>Assignee</th><th>Deadline</th></tr>'' @
                        concat (map table_row (x # xs)) @ units ''</table>''
                    | _ \<Rightarrow> units ''<p>No action items found.</p>''))"
proof (cases "body_throws data")
  case True
  then have "render (Resolved r) = Some (Inl TypeError)"
    using render_parsed [OF assms(4,5)] by (simp add: render_items_throws)
  with True show ?thesis
    by (simp add: click_handler_run [OF assms(1,2)] assms(3) final_html_def final_events_def
        final_completion_def error_html_def processing_html_def)
next
  case False
  define shown where "shown =
      (case field_of data (units ''items'') of
         Some (JArray (x # xs)) \<Rightarrow>
           units ''<table><tr><th>Action</th><th>Assignee</th><th>Deadline</th></tr>'' @
           concat (map table_row (x # xs)) @ units ''</table>''
       | _ \<Rightarrow> units ''<p>No action items found.</p>'')"
  have "render_items data = Inr shown"
    unfolding shown_def
    using False by (rule render_items_gives [unfolded table_head_def no_items_html_def])
  then have "render (Resolved r) = Some (Inr shown)"
    using render_parsed [OF assms(4,5)] by simp
  then have "\<exists>w' evs el.
      click_handler server w = (Returned, w') \<and>
      trace w' = trace w @ evs \<and>
      dom w' ''results'' = Some el \<and>
      (\<forall>err. ConsoleError err \<notin> set evs) \<and> innerHTML el = shown"
    by (simp add: click_handler_run [OF assms(1,2)] assms(3) final_html_def final_events_def
        final_completion_def)
  then show ?thesis
    unfolding shown_def using False by (simp only: if_False)
qed

theorem body_that_throws_witness:
  "dom popup_document ''notes'' =
     Some \<lparr>elem_value = units ''Alice ships the report'', innerHTML = []\<rparr> \<and>
   dom popup_document ''results'' = Some \<lparr>elem_value = [], innerHTML = []\<rparr> \<and>
   body_throws (JObject [(units ''tasks'', JArray [])]) \<and>
   body_throws (JObject [(units ''items'', JArray [JNull])]) \<and>
   \<not> body_throws (JObject [(units ''items'', JString [])]) \<and>
   map_option innerHTML
     (dom (snd (click_handler (answers 200 (JObject [(units ''tasks'', JArray [])]))
        popup_document)) ''results'') =
     Some (units ''<p style='color:red;'>Cannot reach Flask server. Make sure it is running.</p>'') \<and>
   map_option innerHTML
     (dom (snd (click_handler (answers 200 (JObject [(units ''items'', JArray [JNull])]))
        popup_document)) ''results'') =
     Some (units ''<p style='color:red;'>Cannot reach Flask server. Make sure it is running.</p>'') \<and>
   map_option innerHTML
     (dom (snd (click_handler (answers 200 (JObject [(units ''items'', JString [])]))
        popup_document)) ''results'') = Some (units ''<p>No action items found.</p>'')"
proof -
  let ?field = "\<lparr>elem_value = units ''Alice ships the report'', innerHTML = []\<rparr>"
  have n: "dom popup_document ''notes'' = Some ?field"
    and d: "dom popup_document ''results'' = Some \<lparr>elem_value = [], innerHTML = []\<rparr>"
    by (simp_all add: popup_document_def document_with_def)
  have s: "answers 200 data (extract_request (elem_value ?field)) =
      Resolved \<lparr>status = 200, json_result = Parsed data\<rparr>" for data
    by (simp add: answers_def)
  have c: "200 \<le> status \<lparr>status = 200, json_result = Parsed data\<rparr> \<and>
      status \<lparr>status = 200, json_result = Parsed data\<rparr> \<le> 299" for data
    by simp
  have p: "json_result \<lparr>status = 200, json_result = Parsed data\<rparr> = Parsed data" for data
    by simp
  have b1: "body_throws (JObject [(units ''tasks'', JArray [])])"
    and b2: "body_throws (JObject [(units ''items'', JArray [JNull])])"
    and b3: "\<not> body_throws (JObject [(units ''items'', JString [])])"
    by (simp_all add: body_throws_def bad_item_def)
  show ?thesis
    using n d b1 b2 b3
      body_that_throws [where server = "answers 200 (JObject [(units ''tasks'', JArray [])])",
        OF n d s c p]
      body_that_throws [where server = "answers 200 (JObject [(units ''items'', JArray [JNull])])",
        OF n d s c p]
      body_that_throws [where server = "answers 200 (JObject [(units ''items'', JString [])])",
        OF n d s c p]
    by auto
qed

text \<open>
  C3. When the status is in 200 to 299 and the body is an object whose \<^verbatim>\<open>items\<close> is the
  empty array, the results region ends up holding exactly the paragraph
  \<^verbatim>\<open><p>No action items found.</p>\<close>, in which no table element starts.
\<close>

theorem empty_items_message:
  assumes "dom w ''notes'' = Some field" and "dom w ''results'' = Some resultsDiv"
    and "server (extract_request (elem_value field)) = Resolved r"
    and "200 \<le> status r \<and> status r \<le> 299"
    and "json_result r = Parsed (JObject members)"
    and "map_of members (units ''items'') = Some (JArray [])"
  shows "\<exists>w' el. click_handler server w = (Returned, w') \<and>
           dom w' ''results'' = Some el \<and>
           innerHTML el = units ''<p>No action items found.</p>'' \<and>
           \<not> sublist (units ''<table'') (innerHTML el)"
proof -
  have "render_items (JObject members) = Inr (units ''<p>No action items found.</p>'')"
    using assms(6) by (simp add: render_items_def no_items_html_def)
  then have "render (Resolved r) = Some (Inr (units ''<p>No action items found.</p>''))"
    using render_parsed [OF assms(4,5)] by simp
  moreover have "\<not> sublist (units ''<table'') (units ''<p>No action items found.</p>'')"
    by (simp add: sublist_Cons_right prefix_Cons)
  ultimately show ?thesis
    by (simp add: click_handler_run [OF assms(1,2)] assms(3) final_html_def
        final_completion_def)
qed

theorem empty_items_message_witness:
  "dom popup_document ''notes'' =
     Some \<lparr>elem_value = units ''Alice ships the report'', innerHTML = []\<rparr> \<and>
   dom popup_document ''results'' = Some \<lparr>elem_value = [], innerHTML = []\<rparr> \<and>
   map_of [(units ''items'', JArray [])] (units ''items'') = Some (JArray []) \<and>
   (\<exists>w' el.
      click_handler (answers 200 (JObject [(units ''items'', JArray [])])) popup_document =
        (Returned, w') \<and>
      dom w' ''results'' = Some el \<and>
      innerHTML el = units ''<p>No action items found.</p>'' \<and>
      \<not> sublist (units ''<table'') (innerHTML el))"
proof -
  let ?data = "JObject [(units ''items'', JArray [])]"
  have n: "dom popup_document ''notes'' =
      Some \<lparr>elem_value = units ''Alice ships the report'', innerHTML = []\<rparr>"
    and d: "dom popup_document ''results'' = Some \<lparr>elem_value = [], innerHTML = []\<rparr>"
    by (simp_all add: popup_document_def document_with_def)
  have m: "map_of [(units ''items'', JArray [])] (units ''items'') = Some (JArray [])"
    by simp
  show ?thesis
    using n d m
      empty_items_message [where server = "answers 200 ?data"
        and r = "\<lparr>status = 200, json_result = Parsed ?data\<rparr>", OF n d _ _ _ m]
    by (simp add: answers_def)
qed

text \<open>
  C4, as claimed, speaks of every non-empty \<^verbatim>\<open>items\<close> array. On \<^verbatim>\<open>{"items": [null]}\<close> the
  callback throws when it reads \<^verbatim>\<open>item.action\<close>, and the run ends with the error message
  and no table.
\<close>

theorem null_item_counterexample:
  "map_of [(units ''items'', JArray [JNull])] (units ''items'') = Some (JArray [JNull]) \<and>
   [JNull] \<noteq> [] \<and>
   click_handler (answers 200 (JObject [(units ''items'', JArray [JNull])])) popup_document =
     (Returned,
      popup_document
        \<lparr>dom := (dom popup_document)(''results'' \<mapsto>
           \<lparr>elem_value = [],
            innerHTML =
              units ''<p style='color:red;'>Cannot reach Flask server. Make sure it is running.</p>''\<rparr>),
         trace :=
           [GetValue ''notes'',
            SetInnerHTML ''results'' (units ''<p>Processing...</p>''),
            Fetch (extract_request (units ''Alice ships the report'')),
            ConsoleError TypeError,
            SetInnerHTML ''results''
              (units ''<p style='color:red;'>Cannot reach Flask server. Make sure it is running.</p>'')]\<rparr>)"
proof -
  have n: "dom popup_document ''notes'' =
      Some \<lparr>elem_value = units ''Alice ships the report'', innerHTML = []\<rparr>"
    and d: "dom popup_document ''results'' = Some \<lparr>elem_value = [], innerHTML = []\<rparr>"
    and t: "trace popup_document = []"
    by (simp_all add: popup_document_def document_with_def)
  have "render (answers 200 (JObject [(units ''items'', JArray [JNull])]) req) =
      Some (Inl TypeError)" for req
    by (simp add: answers_def render_def ok_def render_items_def row_def)
  then show ?thesis
    using t
    by (simp add: click_handler_run [OF n d] final_html_def final_events_def
        final_completion_def error_html_def processing_html_def)
qed

text \<open>
  C4, as amended. When the status is in 200 to 299 and the body is an object whose
  \<^verbatim>\<open>items\<close> is a non-empty array with no element on which the callback throws (none is
  null, and no \<^verbatim>\<open>action\<close>, \<^verbatim>\<open>assignee\<close> or \<^verbatim>\<open>deadline\<close> is a value that cannot be
  converted to a string), the results region ends up holding a table: the header row Action,
  Assignee, Deadline, then one row for each element, in the order of the array, whose three
  cells are the element's action, assignee and deadline as the template literal converts
  them, then the closing tag. A string is inserted as it is, with no escaping, so for an
  array of action items the cells are the three strings of each item; a missing field reads
  \<^verbatim>\<open>undefined\<close>. The witness has the example of the specification as its first row.
\<close>

theorem items_table:
  assumes "dom w ''notes'' = Some field" and "dom w ''results'' = Some resultsDiv"
    and "server (extract_request (elem_value field)) = Resolved r"
    and "200 \<le> status r \<and> status r \<le> 299"
    and "json_result r = Parsed (JObject members)"
    and "map_of members (units ''items'') = Some (JArray xs)"
    and "xs \<noteq> []"
    and "\<forall>x \<in> set xs. \<not> bad_item x"
  shows "\<exists>w' el. click_handler server w = (Returned, w') \<and>
           dom w' ''results'' = Some el \<and>
           innerHTML el =
             units ''<table><tr><th>Action</th><th>Assignee</th><th>Deadline</th></tr>'' @
             concat (map (\<lambda>x.
               units ''<tr>\<newline>                        <td>'' @
               cell_text (field_of x (units ''action'')) @
               units ''</td>\<newline>                        <td>'' @
               cell_text (field_of x (units ''assignee'')) @
               units ''</td>\<newline>                        <td>'' @
               cell_text (field_of x (units ''deadline'')) @
               units ''</td>\<newline>                     </tr>'') xs) @
             units ''</table>'' \<and>
           (\<forall>its. map as_action_item xs = map Some its \<longrightarrow>
              innerHTML el =
                units ''<table><tr><th>Action</th><th>Assignee</th><th>Deadline</th></tr>'' @
                concat (map (\<lambda>it.
                  units ''<tr>\<newline>                        <td>'' @ action it @
                  units ''</td>\<newline>                        <td>'' @ assignee it @
                  units ''</td>\<newline>                        <td>'' @ deadline it @
                  units ''</td>\<newline>                     </tr>'') its) @
                units ''</table>'')"
proof -
  define html where "html = table_head @ concat (map table_row xs) @ units ''</table>''"
  have "\<not> body_throws (JObject members)"
    using assms(6,8) by (simp add: body_throws_def)
  then have "render_items (JObject members) = Inr html"
    using assms(6,7) by (cases xs) (simp_all add: render_items_gives html_def)
  then have "render (Resolved r) = Some (Inr html)"
    using render_parsed [OF assms(4,5)] by simp
  then have run: "\<exists>w' el. click_handler server w = (Returned, w') \<and>
      dom w' ''results'' = Some el \<and> innerHTML el = html"
    by (simp add: click_handler_run [OF assms(1,2)] assms(3) final_html_def
        final_completion_def)
  have rows: "table_row = (\<lambda>x.
      units ''<tr>\<newline>                        <td>'' @
      cell_text (field_of x (units ''action'')) @
      units ''</td>\<newline>                        <td>'' @
      cell_text (field_of x (units ''assignee'')) @
      units ''</td>\<newline>                        <td>'' @
      cell_text (field_of x (units ''deadline'')) @
      units ''</td>\<newline>                     </tr>'')"
    by (rule ext) (simp only: table_row_def)
  have items: "item_row = (\<lambda>it.
      units ''<tr>\<newline>                        <td>'' @ action it @
      units ''</td>\<newline>                        <td>'' @ assignee it @
      units ''</td>\<newline>                        <td>'' @ deadline it @
      units ''</td>\<newline>                     </tr>'')"
    by (rule ext) (simp only: item_row_def)
  have 1: "html =
      units ''<table><tr><th>Action</th><th>Assignee</th><th>Deadline</th></tr>'' @
      concat (map table_row xs) @ units ''</table>''"
    by (simp only: html_def table_head_def)
  have 2: "html =
      units ''<table><tr><th>Action</th><th>Assignee</th><th>Deadline</th></tr>'' @
      concat (map item_row its) @ units ''</table>''"
    if "map as_action_item xs = map Some its" for its
    using table_rows_action_items [OF that] by (simp only: 1)
  from run obtain w' el where "click_handler server w = (Returned, w')"
    and "dom w' ''results'' = Some el" and "innerHTML el = html"
    by blast
  then show ?thesis
    using 1 2 unfolding rows items by blast
qed

theorem items_table_witness:
  "dom popup_document ''notes'' =
     Some \<lparr>elem_value = units ''Alice ships the report'', innerHTML = []\<rparr> \<and>
   dom popup_document ''results'' = Some \<lparr>elem_value = [], innerHTML = []\<rparr> \<and>
   \<not> bad_item (JObject [(units ''action'', JString (units ''Ship report'')),
      (units ''assignee'', JString (units ''Alice'')),
      (units ''deadline'', JString (units ''2024-01-01''))]) \<and>
   \<not> bad_item (JObject [(units ''action'', JString (units ''Call'')),
      (units ''assignee'', JNull)]) \<and>
   (\<exists>w' el.
      click_handler
        (answers 200 (JObject [(units ''items'', JArray
           [JObject [(units ''action'', JString (units ''Ship report'')),
                     (units ''assignee'', JString (units ''Alice'')),
                     (units ''deadline'', JString (units ''2024-01-01''))],
            JObject [(units ''action'', JString (units ''Call'')),
                     (units ''assignee'', JNull)]])]))
        popup_document = (Returned, w') \<and>
      dom w' ''results'' = Some el \<and>
      innerHTML el =
        units ''<table><tr><th>Action</th><th>Assignee</th><th>Deadline</th></tr><tr>\<newline>                        <td>Ship report</td>\<newline>                        <td>Alice</td>\<newline>                        <td>2024-01-01</td>\<newline>                     </tr><tr>\<newline>                        <td>Call</td>\<newline>                        <td>null</td>\<newline>                        <td>undefined</td>\<newline>                     </tr></table>'')"
proof -
  let ?a = "JObject [(units ''action'', JString (units ''Ship report'')),
    (units ''assignee'', JString (units ''Alice'')),
    (units ''deadline'', JString (units ''2024-01-01''))]"
  let ?b = "JObject [(units ''action'', JString (units ''Call'')), (units ''assignee'', JNull)]"
  let ?data = "JObject [(units ''items'', JArray [?a, ?b])]"
  have n: "dom popup_document ''notes'' =
      Some \<lparr>elem_value = units ''Alice ships the report'', innerHTML = []\<rparr>"
    and d: "dom popup_document ''results'' = Some \<lparr>elem_value = [], innerHTML = []\<rparr>"
    by (simp_all add: popup_document_def document_with_def)
  have m: "map_of [(units ''items'', JArray [?a, ?b])] (units ''items'') = Some (JArray [?a, ?b])"
    by simp
  have a: "\<not> bad_item ?a" and b: "\<not> bad_item ?b"
    by (simp_all add: bad_item_def)
  then have g: "\<forall>x \<in> set [?a, ?b]. \<not> bad_item x"
    by simp
  have ne: "[?a, ?b] \<noteq> []" by simp
  have s: "answers 200 ?data (extract_request (elem_value
      \<lparr>elem_value = units ''Alice ships the report'', innerHTML = []\<rparr>)) =
      Resolved \<lparr>status = 200, json_result = Parsed ?data\<rparr>"
    by (simp add: answers_def)
  have c: "200 \<le> status \<lparr>status = 200, json_result = Parsed ?data\<rparr> \<and>
      status \<lparr>status = 200, json_result = Parsed ?data\<rparr> \<le> 299"
    by simp
  have p: "json_result \<lparr>status = 200, json_result = Parsed ?data\<rparr> = Parsed ?data"
    by simp
  from items_table [where server = "answers 200 ?data", OF n d s c p m ne g]
  obtain w' el where "click_handler (answers 200 ?data) popup_document = (Returned, w')"
    and "dom w' ''results'' = Some el"
    and "innerHTML el =
      units ''<table><tr><th>Action</th><th>Assignee</th><th>Deadline</th></tr>'' @
      concat (map (\<lambda>x.
        units ''<tr>\<newline>                        <td>'' @
        cell_text (field_of x (units ''action'')) @
        units ''</td>\<newline>                        <td>'' @
        cell_text (field_of x (units ''assignee'')) @
        units ''</td>\<newline>                        <td>'' @
        cell_text (field_of x (units ''deadline'')) @
        units ''</td>\<newline>                     </tr>'') [?a, ?b]) @
      units ''</table>''"
    by blast
  then show ?thesis
    using n d a b
    by simp
qed

text \<open>
  C5. Whatever string of code units the text field holds and whatever the server answers,
  a run sends exactly one request: a POST to \<^verbatim>\<open>http://127.0.0.1:5000/api/extract\<close> with
  the one header \<^verbatim>\<open>Content-Type: application/json\<close>, whose body decodes as JSON to the
  object with the single member \<^verbatim>\<open>notes\<close>, the value of the text field when the run began.
  The body has no surrogate outside a pair. The witness has notes with a double quote, a
  character above U+00FF, a surrogate pair, a lone surrogate and a line break.
\<close>

theorem one_post_request:
  assumes "dom w ''notes'' = Some field" and "dom w ''results'' = Some resultsDiv"
  shows "\<exists>c w' evs req. click_handler server w = (c, w') \<and>
           trace w' = trace w @ evs \<and>
           requests evs = [req] \<and>
           url req = ''http://127.0.0.1:5000/api/extract'' \<and>
           http_method req = ''POST'' \<and>
           headers req = [(''Content-Type'', ''application/json'')] \<and>
           decode_string_object (body req) =
             Some (JObject [(units ''notes'', JString (elem_value field))]) \<and>
           well_formed (body req)"
  by (simp add: click_handler_run [OF assms] requests_final_events extract_request_def
      decode_stringify_notes well_formed_stringify_notes del: units_simps)

theorem one_post_request_witness:
  "dom (document_with (units ''say '' @ [0x22, 0x2019, 0xD83D, 0xDE00, 0xD800, 0x0A])) ''notes'' =
     Some \<lparr>elem_value = units ''say '' @ [0x22, 0x2019, 0xD83D, 0xDE00, 0xD800, 0x0A],
           innerHTML = []\<rparr> \<and>
   dom (document_with (units ''say '' @ [0x22, 0x2019, 0xD83D, 0xDE00, 0xD800, 0x0A]))
     ''results'' = Some \<lparr>elem_value = [], innerHTML = []\<rparr> \<and>
   stringify_notes (units ''say '' @ [0x22, 0x2019, 0xD83D, 0xDE00, 0xD800, 0x0A]) =
     units ([CHR ''{'', CHR 0x22] @ ''notes'' @ [CHR 0x22, CHR '':'', CHR 0x22] @ ''say '' @
       [CHR 0x5C, CHR 0x22]) @
     [0x2019, 0xD83D, 0xDE00] @
     units ([CHR 0x5C] @ ''ud800'' @ [CHR 0x5C] @ ''n'' @ [CHR 0x22, CHR ''}'']) \<and>
   (\<exists>c w' req.
      click_handler (\<lambda>req. Pending)
        (document_with (units ''say '' @ [0x22, 0x2019, 0xD83D, 0xDE00, 0xD800, 0x0A])) =
        (c, w') \<and>
      requests (trace w') = [req] \<and>
      url req = ''http://127.0.0.1:5000/api/extract'' \<and>
      http_method req = ''POST'' \<and>
      headers req = [(''Content-Type'', ''application/json'')] \<and>
      decode_string_object (body req) =
        Some (JObject [(units ''notes'',
          JString (units ''say '' @ [0x22, 0x2019, 0xD83D, 0xDE00, 0xD800, 0x0A]))]) \<and>
      well_formed (body req))"
proof -
  let ?notes = "units ''say '' @ [0x22, 0x2019, 0xD83D, 0xDE00, 0xD800, 0x0A] :: jstring"
  have n: "dom (document_with ?notes) ''notes'' = Some \<lparr>elem_value = ?notes, innerHTML = []\<rparr>"
    and d: "dom (document_with ?notes) ''results'' = Some \<lparr>elem_value = [], innerHTML = []\<rparr>"
    and t: "trace (document_with ?notes) = []"
    by (simp_all add: document_with_def)
  have s: "stringify_notes ?notes =
     units ([CHR ''{'', CHR 0x22] @ ''notes'' @ [CHR 0x22, CHR '':'', CHR 0x22] @ ''say '' @
       [CHR 0x5C, CHR 0x22]) @
     [0x2019, 0xD83D, 0xDE00] @
     units ([CHR 0x5C] @ ''ud800'' @ [CHR 0x5C] @ ''n'' @ [CHR 0x22, CHR ''}''])"
    by (simp add: stringify_notes_def QuoteJSONString_def quote_unit_def is_leading_def
        is_trailing_def unicode_escape_def hex_digit_def code_unit_def)
  from one_post_request [where server = "\<lambda>req. Pending", OF n d]
  obtain c w' evs req where
    "click_handler (\<lambda>req. Pending) (document_with ?notes) = (c, w')"
    "trace w' = trace (document_with ?notes) @ evs"
    "requests evs = [req]"
    "url req = ''http://127.0.0.1:5000/api/extract''"
    "http_method req = ''POST''"
    "headers req = [(''Content-Type'', ''application/json'')]"
    "decode_string_object (body req) =
       Some (JObject [(units ''notes'',
         JString (elem_value \<lparr>elem_value = ?notes, innerHTML = []\<rparr>))])"
    "well_formed (body req)"
    by blast
  then have "\<exists>c w' req.
      click_handler (\<lambda>req. Pending) (document_with ?notes) = (c, w') \<and>
      requests (trace w') = [req] \<and>
      url req = ''http://127.0.0.1:5000/api/extract'' \<and>
      http_method req = ''POST'' \<and>
      headers req = [(''Content-Type'', ''application/json'')] \<and>
      decode_string_object (body req) = Some (JObject [(units ''notes'', JString ?notes)]) \<and>
      well_formed (body req)"
    using t by (auto simp del: units_simps)
  with n d s show ?thesis
    by blast
qed

text \<open>
  C6. In every run, whatever the server answers, the placeholder
  \<^verbatim>\<open><p>Processing...</p>\<close> is assigned to the results region before the request is sent:
  of the effects of the run, the read of the text field comes first, the placeholder second
  and the request third, and no other request follows. The document at the end of the run
  is the document with the placeholder in the results region, changed by the assignments
  that come after the request; and as long as the server has not answered, the run leaves
  exactly the document with the placeholder.
\<close>

theorem processing_before_request:
  assumes "dom w ''notes'' = Some field" and "dom w ''results'' = Some resultsDiv"
  shows "(\<exists>c w' rest.
            click_handler server w = (c, w') \<and>
            trace w' = trace w @
              [GetValue ''notes'',
               SetInnerHTML ''results'' (units ''<p>Processing...</p>''),
               Fetch (extract_request (elem_value field))] @ rest \<and>
            requests rest = [] \<and>
            dom w' = replay rest ((dom w)(''results'' \<mapsto>
              resultsDiv\<lparr>innerHTML := units ''<p>Processing...</p>''\<rparr>))) \<and>
         click_handler (\<lambda>req. Pending) w =
           (Suspended,
            w\<lparr>dom := (dom w)(''results'' \<mapsto>
                 resultsDiv\<lparr>innerHTML := units ''<p>Processing...</p>''\<rparr>),
              trace := trace w @
                [GetValue ''notes'',
                 SetInnerHTML ''results'' (units ''<p>Processing...</p>''),
                 Fetch (extract_request (elem_value field))]\<rparr>)"
proof -
  define res where "res = render (server (extract_request (elem_value field)))"
  define placeholder where "placeholder = units ''<p>Processing...</p>''"
  have ph: "processing_html = placeholder"
    by (simp only: processing_html_def placeholder_def)
  have r: "(dom w)(''results'' \<mapsto> resultsDiv\<lparr>innerHTML := final_html res\<rparr>) =
      replay (final_events res)
        ((dom w)(''results'' \<mapsto> resultsDiv\<lparr>innerHTML := placeholder\<rparr>))"
    by (auto simp: final_html_def final_events_def ph split: option.splits sum.splits)
  have "click_handler server w =
      (final_completion res,
       w\<lparr>dom := (dom w)(''results'' \<mapsto> resultsDiv\<lparr>innerHTML := final_html res\<rparr>),
         trace := trace w @
           [GetValue ''notes'', SetInnerHTML ''results'' placeholder,
            Fetch (extract_request (elem_value field))] @ final_events res\<rparr>)"
    by (simp only: click_handler_run [OF assms] res_def ph)
  then have 1: "\<exists>c w' rest.
      click_handler server w = (c, w') \<and>
      trace w' = trace w @
        [GetValue ''notes'', SetInnerHTML ''results'' placeholder,
         Fetch (extract_request (elem_value field))] @ rest \<and>
      requests rest = [] \<and>
      dom w' = replay rest ((dom w)(''results'' \<mapsto> resultsDiv\<lparr>innerHTML := placeholder\<rparr>))"
    using r requests_final_events [of res] by simp
  have "render ((\<lambda>req. Pending) (extract_request (elem_value field))) = None"
    by (simp add: render_def)
  then have 2: "click_handler (\<lambda>req. Pending) w =
      (Suspended,
       w\<lparr>dom := (dom w)(''results'' \<mapsto> resultsDiv\<lparr>innerHTML := placeholder\<rparr>),
         trace := trace w @
           [GetValue ''notes'', SetInnerHTML ''results'' placeholder,
            Fetch (extract_request (elem_value field))]\<rparr>)"
    by (simp add: click_handler_run [OF assms] final_html_def final_events_def
        final_completion_def ph)
  from 1 2 show ?thesis
    unfolding placeholder_def by (rule conjI)
qed

theorem processing_before_request_witness:
  "dom popup_document ''notes'' =
     Some \<lparr>elem_value = units ''Alice ships the report'', innerHTML = []\<rparr> \<and>
   dom popup_document ''results'' = Some \<lparr>elem_value = [], innerHTML = []\<rparr> \<and>
   click_handler (\<lambda>req. Pending) popup_document =
     (Suspended,
      popup_document
        \<lparr>dom := (dom popup_document)(''results'' \<mapsto>
           \<lparr>elem_value = [], innerHTML = units ''<p>Processing...</p>''\<rparr>),
         trace :=
           [GetValue ''notes'',
            SetInnerHTML ''results'' (units ''<p>Processing...</p>''),
            Fetch (extract_request (units ''Alice ships the report''))]\<rparr>) \<and>
   (\<exists>w' rest. click_handler (\<lambda>req. Rejected TypeError) popup_document = (Returned, w') \<and>
      trace w' =
        [GetValue ''notes'',
         SetInnerHTML ''results'' (units ''<p>Processing...</p>''),
         Fetch (extract_request (units ''Alice ships the report''))] @ rest \<and>
      requests rest = [] \<and>
      dom w' = replay rest ((dom popup_document)(''results'' \<mapsto>
        \<lparr>elem_value = [], innerHTML = units ''<p>Processing...</p>''\<rparr>)))"
proof -
  have n: "dom popup_document ''notes'' =
      Some \<lparr>elem_value = units ''Alice ships the report'', innerHTML = []\<rparr>"
    and d: "dom popup_document ''results'' = Some \<lparr>elem_value = [], innerHTML = []\<rparr>"
    and t: "trace popup_document = []"
    by (simp_all add: popup_document_def document_with_def)
  have c: "fst (click_handler (\<lambda>req. Rejected TypeError) popup_document) = Returned"
    by (simp add: click_handler_run [OF n d] render_def final_completion_def)
  show ?thesis
    using n d t c processing_before_request [where server = "\<lambda>req. Rejected TypeError", OF n d]
    by (auto simp del: units_simps)
qed

text \<open>
  C7. With the same notes in the text field and the same answer from the server, a second
  run that follows the first ends as the first did and leaves the document as the first
  left it, and a run on any other document with these notes ends with the same content in
  the results region. That content is a function of the notes and the answer alone: what the
  try block gave, or the error message, or the placeholder when the answer never comes.
\<close>

theorem same_input_same_output:
  assumes "dom w ''notes'' = Some field" and "dom w ''results'' = Some resultsDiv"
    and "server' (extract_request (elem_value field)) = server (extract_request (elem_value field))"
    and "dom v ''notes'' = Some field'" and "dom v ''results'' = Some resultsDiv'"
    and "elem_value field' = elem_value field"
  shows "\<exists>c w1 w2 v1 el.
           click_handler server w = (c, w1) \<and>
           click_handler server' w1 = (c, w2) \<and>
           click_handler server' v = (c, v1) \<and>
           c = (case render (server (extract_request (elem_value field))) of
                  None \<Rightarrow> Suspended
                | Some res \<Rightarrow> Returned) \<and>
           dom w1 ''results'' = Some el \<and>
           innerHTML el =
             (case render (server (extract_request (elem_value field))) of
                None \<Rightarrow> units ''<p>Processing...</p>''
              | Some (Inl err) \<Rightarrow>
                  units ''<p style='color:red;'>Cannot reach Flask server. Make sure it is running.</p>''
              | Some (Inr html) \<Rightarrow> html) \<and>
           dom w2 = dom w1 \<and>
           map_option innerHTML (dom v1 ''results'') = Some (innerHTML el)"
proof -
  define res where "res = render (server (extract_request (elem_value field)))"
  define w1 where "w1 = snd (click_handler server w)"
  have run1: "click_handler server w = (final_completion res, w1)"
    by (simp add: w1_def res_def click_handler_run [OF assms(1,2)])
  have n1: "dom w1 ''notes'' = Some field"
    and r1: "dom w1 ''results'' = Some (resultsDiv\<lparr>innerHTML := final_html res\<rparr>)"
    using assms(1) by (simp_all add: w1_def res_def click_handler_run [OF assms(1,2)])
  define w2 where "w2 = snd (click_handler server' w1)"
  have run2: "click_handler server' w1 = (final_completion res, w2)"
    and d2: "dom w2 = dom w1"
    using assms(3) r1 by (auto simp: w2_def res_def click_handler_run [OF n1 r1])
  define v1 where "v1 = snd (click_handler server' v)"
  have run3: "click_handler server' v = (final_completion res, v1)"
    and d3: "map_option innerHTML (dom v1 ''results'') = Some (final_html res)"
    using assms(3,6) by (simp_all add: v1_def res_def click_handler_run [OF assms(4,5)])
  have c: "final_completion res = (case res of None \<Rightarrow> Suspended | Some r \<Rightarrow> Returned)"
    by (simp only: final_completion_def)
  have h: "final_html res =
      (case res of
         None \<Rightarrow> units ''<p>Processing...</p>''
       | Some (Inl err) \<Rightarrow>
           units ''<p style='color:red;'>Cannot reach Flask server. Make sure it is running.</p>''
       | Some (Inr html) \<Rightarrow> html)"
    by (simp only: final_html_def processing_html_def error_html_def)
  have "innerHTML (resultsDiv\<lparr>innerHTML := final_html res\<rparr>) = final_html res"
    by simp
  with run1 run2 run3 r1 d2 d3 c h show ?thesis
    unfolding res_def by metis
qed

theorem same_input_same_output_witness:
  "dom popup_document ''notes'' =
     Some \<lparr>elem_value = units ''Alice ships the report'', innerHTML = []\<rparr> \<and>
   dom popup_document ''results'' = Some \<lparr>elem_value = [], innerHTML = []\<rparr> \<and>
   (\<exists>w1 w2.
      click_handler (answers 200 (JObject [(units ''items'', JArray [])])) popup_document =
        (Returned, w1) \<and>
      click_handler (answers 200 (JObject [(units ''items'', JArray [])])) w1 =
        (Returned, w2) \<and>
      map_option innerHTML (dom w1 ''results'') =
        Some (units ''<p>No action items found.</p>'') \<and>
      dom w2 = dom w1)"
proof -
  let ?server = "answers 200 (JObject [(units ''items'', JArray [])])"
  have n: "dom popup_document ''notes'' =
      Some \<lparr>elem_value = units ''Alice ships the report'', innerHTML = []\<rparr>"
    and d: "dom popup_document ''results'' = Some \<lparr>elem_value = [], innerHTML = []\<rparr>"
    by (simp_all add: popup_document_def document_with_def)
  have r: "render (?server req) = Some (Inr (units ''<p>No action items found.</p>''))" for req
    by (simp add: answers_def render_def ok_def render_items_def no_items_html_def)
  from same_input_same_output [where server = ?server and server' = ?server
      and v = popup_document, OF n d refl n d refl]
  obtain c w1 w2 v1 el where
    "click_handler ?server popup_document = (c, w1)"
    "click_handler ?server w1 = (c, w2)"
    "c = (case render (?server (extract_request (elem_value
        \<lparr>elem_value = units ''Alice ships the report'', innerHTML = []\<rparr>))) of
          None \<Rightarrow> Suspended | Some res \<Rightarrow> Returned)"
    "dom w1 ''results'' = Some el"
    "innerHTML el =
      (case render (?server (extract_request (elem_value
          \<lparr>elem_value = units ''Alice ships the report'', innerHTML = []\<rparr>))) of
         None \<Rightarrow> units ''<p>Processing...</p>''
       | Some (Inl err) \<Rightarrow>
           units ''<p style='color:red;'>Cannot reach Flask server. Make sure it is running.</p>''
       | Some (Inr html) \<Rightarrow> html)"
    "dom w2 = dom w1"
    by blast
  then have "\<exists>w1 w2.
      click_handler ?server popup_document = (Returned, w1) \<and>
      click_handler ?server w1 = (Returned, w2) \<and>
      map_option innerHTML (dom w1 ''results'') =
        Some (units ''<p>No action items found.</p>'') \<and>
      dom w2 = dom w1"
    by (auto simp: r simp del: units_simps)
  with n d show ?thesis by blast
qed

text \<open>
  C8. With an empty text field the handler validates nothing: it sends the request, whose
  body is \<^verbatim>\<open>{"notes":""}\<close>, and the results region ends up with what the try block makes
  of the server's answer. A run with any other notes whose request gets the same answer
  leaves the same results region.
\<close>

theorem empty_notes_are_sent:
  assumes "dom w ''notes'' = Some field" and "elem_value field = []"
    and "dom w ''results'' = Some resultsDiv"
  shows "\<exists>c w' rest el.
           click_handler server w = (c, w') \<and>
           c = (case render (server (extract_request [])) of
                  None \<Rightarrow> Suspended
                | Some res \<Rightarrow> Returned) \<and>
           trace w' = trace w @
             [GetValue ''notes'',
              SetInnerHTML ''results'' (units ''<p>Processing...</p>''),
              Fetch (extract_request [])] @ rest \<and>
           body (extract_request []) =
             units ([CHR ''{'', CHR 0x22] @ ''notes'' @
               [CHR 0x22, CHR '':'', CHR 0x22, CHR 0x22, CHR ''}'']) \<and>
           dom w' ''results'' = Some el \<and>
           innerHTML el =
             (case render (server (extract_request [])) of
                None \<Rightarrow> units ''<p>Processing...</p>''
              | Some (Inl err) \<Rightarrow>
                  units ''<p style='color:red;'>Cannot reach Flask server. Make sure it is running.</p>''
              | Some (Inr html) \<Rightarrow> html) \<and>
           (\<forall>notes server'.
              server' (extract_request notes) = server (extract_request []) \<longrightarrow>
              dom (snd (click_handler server'
                     (w\<lparr>dom := (dom w)(''notes'' \<mapsto> field\<lparr>elem_value := notes\<rparr>)\<rparr>)))
                ''results'' = Some el)"
proof -
  define res where "res = render (server (extract_request []))"
  have b: "body (extract_request []) =
      units ([CHR ''{'', CHR 0x22] @ ''notes'' @
        [CHR 0x22, CHR '':'', CHR 0x22, CHR 0x22, CHR ''}''])"
    by (simp add: extract_request_def stringify_notes_def QuoteJSONString_def quote_unit_def
        is_leading_def is_trailing_def code_unit_def)
  have other: "dom (snd (click_handler server'
        (w\<lparr>dom := (dom w)(''notes'' \<mapsto> field\<lparr>elem_value := typed\<rparr>)\<rparr>))) ''results'' =
      Some (resultsDiv\<lparr>innerHTML := final_html res\<rparr>)"
    if "server' (extract_request typed) = server (extract_request [])" for typed server'
  proof -
    let ?v = "w\<lparr>dom := (dom w)(''notes'' \<mapsto> field\<lparr>elem_value := typed\<rparr>)\<rparr>"
    have n: "dom ?v ''notes'' = Some (field\<lparr>elem_value := typed\<rparr>)"
      and d: "dom ?v ''results'' = Some resultsDiv"
      using assms(3) by simp_all
    show ?thesis
      using that by (simp add: click_handler_run [OF n d] res_def)
  qed
  have run: "click_handler server w =
      (final_completion res,
       w\<lparr>dom := (dom w)(''results'' \<mapsto> resultsDiv\<lparr>innerHTML := final_html res\<rparr>),
         trace := trace w @
           [GetValue ''notes'', SetInnerHTML ''results'' (units ''<p>Processing...</p>''),
            Fetch (extract_request [])] @ final_events res\<rparr>)"
    using assms(2) by (simp only: click_handler_run [OF assms(1,3)] res_def processing_html_def)
  have c: "final_completion res = (case res of None \<Rightarrow> Suspended | Some r \<Rightarrow> Returned)"
    by (simp only: final_completion_def)
  have h: "final_html res =
      (case res of
         None \<Rightarrow> units ''<p>Processing...</p>''
       | Some (Inl err) \<Rightarrow>
           units ''<p style='color:red;'>Cannot reach Flask server. Make sure it is running.</p>''
       | Some (Inr html) \<Rightarrow> html)"
    by (simp only: final_html_def processing_html_def error_html_def)
  let ?w' = "w\<lparr>dom := (dom w)(''results'' \<mapsto> resultsDiv\<lparr>innerHTML := final_html res\<rparr>),
         trace := trace w @
           [GetValue ''notes'', SetInnerHTML ''results'' (units ''<p>Processing...</p>''),
            Fetch (extract_request [])] @ final_events res\<rparr>"
  let ?el = "resultsDiv\<lparr>innerHTML := final_html res\<rparr>"
  have "dom ?w' ''results'' = Some ?el" and "innerHTML ?el = final_html res"
    and "trace ?w' = trace w @
      [GetValue ''notes'', SetInnerHTML ''results'' (units ''<p>Processing...</p>''),
       Fetch (extract_request [])] @ final_events res"
    by simp_all
  with run c h b other show ?thesis
    unfolding res_def by metis
qed

theorem empty_notes_are_sent_witness:
  "dom (document_with []) ''notes'' = Some \<lparr>elem_value = [], innerHTML = []\<rparr> \<and>
   elem_value \<lparr>elem_value = [], innerHTML = []\<rparr> = [] \<and>
   dom (document_with []) ''results'' = Some \<lparr>elem_value = [], innerHTML = []\<rparr> \<and>
   (\<exists>w'. click_handler (answers 200 (JObject [(units ''items'', JArray [])]))
        (document_with []) = (Returned, w') \<and>
      requests (trace w') = [extract_request []] \<and>
      map_option innerHTML (dom w' ''results'') =
        Some (units ''<p>No action items found.</p>'') \<and>
      map_option innerHTML
        (dom (snd (click_handler (answers 200 (JObject [(units ''items'', JArray [])]))
           ((document_with [])\<lparr>dom := (dom (document_with []))(''notes'' \<mapsto>
              \<lparr>elem_value = units ''Alice ships the report'', innerHTML = []\<rparr>)\<rparr>)))
           ''results'') =
        Some (units ''<p>No action items found.</p>''))"
proof -
  let ?server = "answers 200 (JObject [(units ''items'', JArray [])])"
  let ?field = "\<lparr>elem_value = [], innerHTML = []\<rparr> :: element"
  have n: "dom (document_with []) ''notes'' = Some ?field"
    and d: "dom (document_with []) ''results'' = Some \<lparr>elem_value = [], innerHTML = []\<rparr>"
    and t: "trace (document_with []) = []"
    by (simp_all add: document_with_def)
  have e: "elem_value ?field = []"
    by simp
  have r: "render (?server req) = Some (Inr (units ''<p>No action items found.</p>''))" for req
    by (simp add: answers_def render_def ok_def render_items_def no_items_html_def)
  have s: "?server (extract_request (units ''Alice ships the report'')) =
      ?server (extract_request [])"
    by (simp add: answers_def)
  from empty_notes_are_sent [where server = ?server, OF n e d]
  obtain c w' rest el where
    run: "click_handler ?server (document_with []) = (c, w')"
    and c: "c = (case render (?server (extract_request [])) of
         None \<Rightarrow> Suspended | Some res \<Rightarrow> Returned)"
    and tr: "trace w' = trace (document_with []) @
      [GetValue ''notes'', SetInnerHTML ''results'' (units ''<p>Processing...</p>''),
       Fetch (extract_request [])] @ rest"
    and el: "dom w' ''results'' = Some el"
      "innerHTML el = (case render (?server (extract_request [])) of
         None \<Rightarrow> units ''<p>Processing...</p>''
       | Some (Inl err) \<Rightarrow>
           units ''<p style='color:red;'>Cannot reach Flask server. Make sure it is running.</p>''
       | Some (Inr html) \<Rightarrow> html)"
    and other: "\<forall>notes server'.
        server' (extract_request notes) = ?server (extract_request []) \<longrightarrow>
        dom (snd (click_handler server'
          ((document_with [])\<lparr>dom := (dom (document_with []))(''notes'' \<mapsto>
             ?field\<lparr>elem_value := notes\<rparr>)\<rparr>))) ''results'' = Some el"
    by blast
  have c': "c = Returned"
    using c by (simp only: r option.case)
  have h: "innerHTML el = units ''<p>No action items found.</p>''"
    using el(2) by (simp only: r option.case sum.case)
  have q: "requests (trace w') = [extract_request []]"
    using run
    by (auto simp: click_handler_run [OF n d] t requests_final_events simp del: units_simps)
  have "dom (snd (click_handler ?server
      ((document_with [])\<lparr>dom := (dom (document_with []))(''notes'' \<mapsto>
         ?field\<lparr>elem_value := units ''Alice ships the report''\<rparr>)\<rparr>)))
      ''results'' = Some el"
    using other s by blast
  then have o: "map_option innerHTML (dom (snd (click_handler ?server
      ((document_with [])\<lparr>dom := (dom (document_with []))(''notes'' \<mapsto>
         \<lparr>elem_value = units ''Alice ships the report'', innerHTML = []\<rparr>)\<rparr>)))
      ''results'') = Some (units ''<p>No action items found.</p>'')"
    using h by (simp del: units_simps)
  have "map_option innerHTML (dom w' ''results'') = Some (units ''<p>No action items found.</p>'')"
    using el(1) h by simp
  with n d e run c' q o show ?thesis
    by blast
qed

text \<open>
  C9, as claimed, says that every run terminates with the rendered output or the error
  message. The script sets no timeout: when the server never answers, or the body of a
  response with a status in 200 to 299 never arrives, the run stays suspended at its
  \<^verbatim>\<open>await\<close> and the results region keeps the placeholder.
\<close>

theorem pending_answer_counterexample:
  "dom popup_document ''extractBtn'' \<noteq> None \<and>
   dom popup_document ''notes'' \<noteq> None \<and>
   dom popup_document ''results'' \<noteq> None \<and>
   fst (click_handler (\<lambda>req. Pending) popup_document) = Suspended \<and>
   map_option innerHTML (dom (snd (click_handler (\<lambda>req. Pending) popup_document)) ''results'') =
     Some (units ''<p>Processing...</p>'') \<and>
   fst (click_handler (\<lambda>req. Resolved \<lparr>status = 200, json_result = BodyPending\<rparr>)
     popup_document) = Suspended \<and>
   map_option innerHTML
     (dom (snd (click_handler (\<lambda>req. Resolved \<lparr>status = 200, json_result = BodyPending\<rparr>)
        popup_document)) ''results'') = Some (units ''<p>Processing...</p>'')"
proof -
  have n: "dom popup_document ''notes'' =
      Some \<lparr>elem_value = units ''Alice ships the report'', innerHTML = []\<rparr>"
    and d: "dom popup_document ''results'' = Some \<lparr>elem_value = [], innerHTML = []\<rparr>"
    and b: "dom popup_document ''extractBtn'' \<noteq> None"
    by (simp_all add: popup_document_def document_with_def)
  show ?thesis
    using n d b
    by (simp add: click_handler_run [OF n d] render_def ok_def final_completion_def
        final_html_def processing_html_def)
qed

text \<open>
  C9, as amended. When the button, the text field and the results region exist, the script
  registers the handler and no run of the handler ends in an uncaught exception, whatever
  the server answers. Whenever the promises that the run awaits settle, the run returns, and
  the results region holds the error message, with an exception logged, or, with nothing
  logged, what was rendered: the empty-state message or a table. Otherwise the run stays
  suspended, with nothing logged and the placeholder in the results region.
\<close>

theorem handler_never_throws:
  assumes "dom w ''extractBtn'' = Some button" and "dom w ''notes'' = Some field"
    and "dom w ''results'' = Some resultsDiv"
  shows "popup_script w = Inr click_handler \<and>
         (\<exists>c w' evs el.
            click_handler server w = (c, w') \<and>
            (\<forall>e. c \<noteq> Uncaught e) \<and>
            trace w' = trace w @ evs \<and>
            dom w' ''results'' = Some el \<and>
            (if settles (server (extract_request (elem_value field)))
             then c = Returned \<and>
                  ((\<exists>err. ConsoleError err \<in> set evs) \<and>
                   innerHTML el =
                     units ''<p style='color:red;'>Cannot reach Flask server. Make sure it is running.</p>'' \<or>
                   (\<forall>err. ConsoleError err \<notin> set evs) \<and>
                   (innerHTML el = units ''<p>No action items found.</p>'' \<or>
                    (\<exists>t. innerHTML el =
                       units ''<table><tr><th>Action</th><th>Assignee</th><th>Deadline</th></tr>'' @
                       t @ units ''</table>'')))
             else c = Suspended \<and>
                  (\<forall>err. ConsoleError err \<notin> set evs) \<and>
                  innerHTML el = units ''<p>Processing...</p>''))"
proof -
  define res where "res = render (server (extract_request (elem_value field)))"
  let ?w' = "w\<lparr>dom := (dom w)(''results'' \<mapsto> resultsDiv\<lparr>innerHTML := final_html res\<rparr>),
      trace := trace w @
        ([GetValue ''notes'', SetInnerHTML ''results'' processing_html,
          Fetch (extract_request (elem_value field))] @ final_events res)\<rparr>"
  let ?evs = "[GetValue ''notes'', SetInnerHTML ''results'' processing_html,
      Fetch (extract_request (elem_value field))] @ final_events res"
  let ?el = "resultsDiv\<lparr>innerHTML := final_html res\<rparr>"
  have run: "click_handler server w = (final_completion res, ?w')"
    by (simp add: click_handler_run [OF assms(2,3)] res_def)
  have nu: "\<forall>e. final_completion res \<noteq> Uncaught e"
    by (simp add: final_completion_def split: option.split)
  have st: "settles (server (extract_request (elem_value field))) \<longleftrightarrow> res \<noteq> None"
    unfolding res_def by (rule render_settles [symmetric])
  have shape: "if settles (server (extract_request (elem_value field)))
      then final_completion res = Returned \<and>
           ((\<exists>err. ConsoleError err \<in> set ?evs) \<and>
            innerHTML ?el =
              units ''<p style='color:red;'>Cannot reach Flask server. Make sure it is running.</p>'' \<or>
            (\<forall>err. ConsoleError err \<notin> set ?evs) \<and>
            (innerHTML ?el = units ''<p>No action items found.</p>'' \<or>
             (\<exists>t. innerHTML ?el =
                units ''<table><tr><th>Action</th><th>Assignee</th><th>Deadline</th></tr>'' @
                t @ units ''</table>'')))
      else final_completion res = Suspended \<and>
           (\<forall>err. ConsoleError err \<notin> set ?evs) \<and>
           innerHTML ?el = units ''<p>Processing...</p>''"
  proof (cases res)
    case None
    then show ?thesis
      by (simp add: st final_completion_def final_events_def final_html_def processing_html_def
          del: units_simps)
  next
    case (Some outcome)
    show ?thesis
    proof (cases outcome)
      case (Inl err)
      with Some show ?thesis
        by (simp add: st final_completion_def final_events_def final_html_def error_html_def
            del: units_simps)
    next
      case (Inr html)
      with Some have "render (server (extract_request (elem_value field))) = Some (Inr html)"
        by (simp add: res_def)
      then have "html = units ''<p>No action items found.</p>'' \<or>
          (\<exists>t. html =
             units ''<table><tr><th>Action</th><th>Assignee</th><th>Deadline</th></tr>'' @ t @
             units ''</table>'')"
        by (rule rendered_shape)
      with Some Inr show ?thesis
        by (simp add: st final_completion_def final_events_def final_html_def
            del: units_simps)
    qed
  qed
  have "popup_script w = Inr click_handler"
    using assms(1) by (simp add: popup_script_def)
  moreover have "\<exists>c w' evs el.
      click_handler server w = (c, w') \<and>
      (\<forall>e. c \<noteq> Uncaught e) \<and>
      trace w' = trace w @ evs \<and>
      dom w' ''results'' = Some el \<and>
      (if settles (server (extract_request (elem_value field)))
       then c = Returned \<and>
            ((\<exists>err. ConsoleError err \<in> set evs) \<and>
             innerHTML el =
               units ''<p style='color:red;'>Cannot reach Flask server. Make sure it is running.</p>'' \<or>
             (\<forall>err. ConsoleError err \<notin> set evs) \<and>
             (innerHTML el = units ''<p>No action items found.</p>'' \<or>
              (\<exists>t. innerHTML el =
                 units ''<table><tr><th>Action</th><th>Assignee</th><th>Deadline</th></tr>'' @
                 t @ units ''</table>'')))
       else c = Suspended \<and>
            (\<forall>err. ConsoleError err \<notin> set evs) \<and>
            innerHTML el = units ''<p>Processing...</p>'')"
  proof (intro exI conjI)
    show "click_handler server w = (final_completion res, ?w')" by (rule run)
    show "\<forall>e. final_completion res \<noteq> Uncaught e" by (rule nu)
    show "trace ?w' = trace w @ ?evs" by simp
    show "dom ?w' ''results'' = Some ?el" by simp
    show "if settles (server (extract_request (elem_value field)))
      then final_completion res = Returned \<and>
           ((\<exists>err. ConsoleError err \<in> set ?evs) \<and>
            innerHTML ?el =
              units ''<p style='color:red;'>Cannot reach Flask server. Make sure it is running.</p>'' \<or>
            (\<forall>err. ConsoleError err \<notin> set ?evs) \<and>
            (innerHTML ?el = units ''<p>No action items found.</p>'' \<or>
             (\<exists>t. innerHTML ?el =
                units ''<table><tr><th>Action</th><th>Assignee</th><th>Deadline</th></tr>'' @
                t @ units ''</table>'')))
      else final_completion res = Suspended \<and>
           (\<forall>err. ConsoleError err \<notin> set ?evs) \<and>
           innerHTML ?el = units ''<p>Processing...</p>''"
      by (rule shape)
  qed
  ultimately show ?thesis by (rule conjI)
qed

theorem handler_never_throws_witness:
  "dom popup_document ''extractBtn'' = Some \<lparr>elem_value = [], innerHTML = units ''Extract''\<rparr> \<and>
   dom popup_document ''notes'' =
     Some \<lparr>elem_value = units ''Alice ships the report'', innerHTML = []\<rparr> \<and>
   dom popup_document ''results'' = Some \<lparr>elem_value = [], innerHTML = []\<rparr> \<and>
   popup_script popup_document = Inr click_handler \<and>
   settles (answers 200 (JObject [(units ''items'', JNumber (units ''5''))])
     (extract_request (units ''Alice ships the report''))) \<and>
   (\<exists>w'. click_handler (answers 200 (JObject [(units ''items'', JNumber (units ''5''))]))
        popup_document = (Returned, w') \<and>
      ConsoleError TypeError \<in> set (trace w') \<and>
      map_option innerHTML (dom w' ''results'') =
        Some (units ''<p style='color:red;'>Cannot reach Flask server. Make sure it is running.</p>'')) \<and>
   \<not> settles Pending \<and>
   (\<exists>w'. click_handler (\<lambda>req. Pending) popup_document = (Suspended, w') \<and>
      map_option innerHTML (dom w' ''results'') = Some (units ''<p>Processing...</p>''))"
proof -
  let ?server = "answers 200 (JObject [(units ''items'', JNumber (units ''5''))])"
  let ?field = "\<lparr>elem_value = units ''Alice ships the report'', innerHTML = []\<rparr>"
  have b: "dom popup_document ''extractBtn'' =
      Some \<lparr>elem_value = [], innerHTML = units ''Extract''\<rparr>"
    and n: "dom popup_document ''notes'' = Some ?field"
    and d: "dom popup_document ''results'' = Some \<lparr>elem_value = [], innerHTML = []\<rparr>"
    and t: "trace popup_document = []"
    by (simp_all add: popup_document_def document_with_def)
  have s1: "settles (?server (extract_request (elem_value ?field)))"
    by (simp add: settles_def answers_def)
  have s2: "\<not> settles ((\<lambda>req. Pending) (extract_request (elem_value ?field)))"
    by (simp add: settles_def)
  have r: "render (?server req) = Some (Inl TypeError)" for req
    by (simp add: answers_def render_def ok_def render_items_def)
  have 0: "popup_script popup_document = Inr click_handler"
    using handler_never_throws [where server = ?server, OF b n d] by blast
  from handler_never_throws [where server = ?server, OF b n d] s1
  obtain w1 evs1 el1 where
    "click_handler ?server popup_document = (Returned, w1)"
    "trace w1 = trace popup_document @ evs1"
    "dom w1 ''results'' = Some el1"
    by (simp only: if_True) blast
  then have 1: "\<exists>w'. click_handler ?server popup_document = (Returned, w') \<and>
      ConsoleError TypeError \<in> set (trace w') \<and>
      map_option innerHTML (dom w' ''results'') =
        Some (units ''<p style='color:red;'>Cannot reach Flask server. Make sure it is running.</p>'')"
    using r
    by (auto simp: click_handler_run [OF n d] final_events_def final_html_def error_html_def
        simp del: units_simps)
  from handler_never_throws [where server = "\<lambda>req. Pending", OF b n d] s2
  obtain w2 el2 where
    "click_handler (\<lambda>req. Pending) popup_document = (Suspended, w2)"
    "dom w2 ''results'' = Some el2"
    "innerHTML el2 = units ''<p>Processing...</p>''"
    by (simp only: if_False) blast
  then have 2: "\<exists>w'. click_handler (\<lambda>req. Pending) popup_document = (Suspended, w') \<and>
      map_option innerHTML (dom w' ''results'') = Some (units ''<p>Processing...</p>'')"
    by (auto simp del: units_simps)
  have s1': "settles (?server (extract_request (units ''Alice ships the report'')))"
    using s1 by (simp del: units_simps)
  have s2': "\<not> settles Pending"
    using s2 by simp
  from b n d 0 s1' 1 s2' 2 show ?thesis
    by blast
qed

text \<open>
  C10. A run changes nothing in the document but the \<^verbatim>\<open>innerHTML\<close> of the results region:
  every other element, and the value of the results region itself, are as before, on every
  path, also when an element is missing. Every assignment the run makes is to the results
  region. The text field is read once, as the first effect of the run.
\<close>

theorem writes_only_results:
  "\<exists>evs. trace (snd (click_handler server w)) = trace w @ evs \<and>
     (\<forall>i. i \<noteq> ''results'' \<longrightarrow> dom (snd (click_handler server w)) i = dom w i) \<and>
     map_option elem_value (dom (snd (click_handler server w)) ''results'') =
       map_option elem_value (dom w ''results'') \<and>
     set (written evs) \<subseteq> {''results''} \<and>
     reads evs = (if dom w ''notes'' = None then [] else [''notes'']) \<and>
     take 1 evs = map GetValue (reads evs)"
proof (cases "dom w ''notes''")
  case None
  then show ?thesis by (simp add: click_handler_def)
next
  case (Some field)
  note n = this
  show ?thesis
  proof (cases "dom w ''results''")
    case None
    with n show ?thesis by (simp add: click_handler_def emit_def Let_def)
  next
    case (Some resultsDiv)
    show ?thesis
      using n Some final_events_frame
      by (simp add: click_handler_run [OF n Some])
  qed
qed

theorem writes_only_results_witness:
  "dom (snd (click_handler (answers 200 (JObject [(units ''items'', JArray [])]))
     popup_document)) ''notes'' =
     Some \<lparr>elem_value = units ''Alice ships the report'', innerHTML = []\<rparr> \<and>
   dom (snd (click_handler (answers 200 (JObject [(units ''items'', JArray [])]))
     popup_document)) ''extractBtn'' =
     Some \<lparr>elem_value = [], innerHTML = units ''Extract''\<rparr> \<and>
   dom (snd (click_handler (answers 200 (JObject [(units ''items'', JArray [])]))
     popup_document)) ''results'' =
     Some \<lparr>elem_value = [], innerHTML = units ''<p>No action items found.</p>''\<rparr> \<and>
   reads (trace (snd (click_handler (answers 200 (JObject [(units ''items'', JArray [])]))
     popup_document))) = [''notes''] \<and>
   written (trace (snd (click_handler (answers 200 (JObject [(units ''items'', JArray [])]))
     popup_document))) = [''results'', ''results'']"
proof -
  let ?server = "answers 200 (JObject [(units ''items'', JArray [])])"
  have n: "dom popup_document ''notes'' =
      Some \<lparr>elem_value = units ''Alice ships the report'', innerHTML = []\<rparr>"
    and d: "dom popup_document ''results'' = Some \<lparr>elem_value = [], innerHTML = []\<rparr>"
    and b: "dom popup_document ''extractBtn'' =
      Some \<lparr>elem_value = [], innerHTML = units ''Extract''\<rparr>"
    and t: "trace popup_document = []"
    by (simp_all add: popup_document_def document_with_def)
  have r: "render (?server req) = Some (Inr (units ''<p>No action items found.</p>''))" for req
    by (simp add: answers_def render_def ok_def render_items_def no_items_html_def)
  from writes_only_results [of ?server popup_document]
  have "dom (snd (click_handler ?server popup_document)) ''notes'' = dom popup_document ''notes''"
    and "dom (snd (click_handler ?server popup_document)) ''extractBtn'' =
      dom popup_document ''extractBtn''"
    by auto
  then show ?thesis
    using n b r
    by (simp add: click_handler_run [OF n d] t final_html_def final_events_def)
qed

end
